theory Spec2Isabelle
  imports Main "HOL-Library.Word"
begin

unbundle bit_operations_syntax

section \<open>Load-cell ADC drivers: HX71x, ADS1220 and ADS1256\<close>

text \<open>
  The three drivers share one architecture. A periodic timer flags a sensor as pending and
  wakes a background task; the task calls the driver's \<open>read_adc\<close>, which reads a 24-bit
  conversion, decodes it to a signed 32-bit count, appends it to the sensor's bulk buffer
  and re-arms the timer. Everything the hardware supplies to one poll (pin levels, bus
  bytes, clock readings) is an explicit input record; a firmware \<open>shutdown\<close> and a write
  outside the buffer array are values of the type \<open>fault\<close>.
\<close>

subsection \<open>Faults\<close>

datatype fault = Shutdown string | Out_Of_Bounds

subsection \<open>The bulk sample buffer\<close>

text \<open>
  Modelled from the spec: \<open>struct sensor_bulk\<close>, \<open>sensor_bulk_report\<close> and
  \<open>sensor_bulk_reset\<close> (\<open>sensor_bulk.h\<close>) are not among the sources. The buffer is a fixed
  byte array \<open>data\<close> whose length is its capacity (\<open>ARRAY_SIZE(sb.data)\<close>), the number
  \<open>data_count\<close> of bytes filled and the side field \<open>possible_overflows\<close>. A flush
  delivers the bytes accumulated so far to the host and resets the fill count to zero;
  \<open>host_reports\<close> lists what was delivered, oldest first, with the sensor's oid.
  The spec does not say what a report or a reset does to the side field: the model leaves
  it alone, and no property below speaks of its value after a report.
\<close>

record sensor_bulk =
  data :: "8 word list"
  data_count :: nat
  possible_overflows :: nat
  host_reports :: "(8 word \<times> 8 word list) list"

definition ARRAY_SIZE :: "sensor_bulk \<Rightarrow> nat" where
  "ARRAY_SIZE b = length (data b)"

definition sensor_bulk_report :: "sensor_bulk \<Rightarrow> 8 word \<Rightarrow> sensor_bulk" where
  "sensor_bulk_report b oid =
     b\<lparr>host_reports := host_reports b @ [(oid, take (data_count b) (data b))],
       data_count := 0\<rparr>"

definition sensor_bulk_reset :: "sensor_bulk \<Rightarrow> sensor_bulk" where
  "sensor_bulk_reset b = b\<lparr>data_count := 0\<rparr>"

definition BYTES_PER_SAMPLE :: nat where
  "BYTES_PER_SAMPLE = 4"

definition SAMPLE_ERROR :: "32 word" where
  "SAMPLE_ERROR = 0x80000000"

text \<open>
  \<open>add_sample\<close> and \<open>flush_samples\<close> are the same in the three drivers: they act on the
  \<open>sb\<close> member only. \<open>add_sample\<close> stores the four bytes of \<open>counts\<close>, least
  significant first, at offsets \<open>data_count .. data_count + 3\<close> and checks nothing; in
  C a store beyond the array is undefined, here it is the fault \<open>Out_Of_Bounds\<close>.
\<close>

definition add_sample :: "sensor_bulk \<Rightarrow> 32 word \<Rightarrow> fault + sensor_bulk" where
  "add_sample b counts =
     (let n = data_count b in
      if ARRAY_SIZE b < n + 4 then Inl Out_Of_Bounds
      else Inr (b\<lparr>data := (data b)
                  [n := ucast counts,
                   n + 1 := ucast (drop_bit 8 counts),
                   n + 2 := ucast (drop_bit 16 counts),
                   n + 3 := ucast (drop_bit 24 counts)],
                data_count := n + BYTES_PER_SAMPLE\<rparr>))"

definition flush_samples :: "sensor_bulk \<Rightarrow> 8 word \<Rightarrow> sensor_bulk" where
  "flush_samples b oid =
     (if data_count b + BYTES_PER_SAMPLE > ARRAY_SIZE b then sensor_bulk_report b oid
      else b)"

subsection \<open>Timers\<close>

text \<open>
  Modelled from the spec: \<open>struct timer\<close>, \<open>sched_add_timer\<close> and \<open>sched_del_timer\<close>
  (\<open>sched.h\<close>) are not among the sources. A sensor owns one timer; it is either scheduled to
  fire at \<open>waketime\<close> or not scheduled. Adding schedules it, deleting cancels it, and a
  timer whose handler returns \<open>SF_DONE\<close> is not scheduled any more once it has fired.
\<close>

record timer =
  waketime :: "32 word"
  scheduled :: bool

datatype sched_flag = SF_DONE | SF_RESCHEDULE

definition sched_add_timer :: "timer \<Rightarrow> timer" where
  "sched_add_timer t = t\<lparr>scheduled := True\<rparr>"

definition sched_del_timer :: "timer \<Rightarrow> timer" where
  "sched_del_timer t = t\<lparr>scheduled := False\<rparr>"

subsection \<open>The sensor structures\<close>

text \<open>
  The members the three structures have in common, then each driver's own. The pins and
  the bus handle are not state: what is read from them is an input of each poll. The
  HX71x record keeps the level last written to its clock pin \<open>sclk\<close> (high powers the
  chip down). The ADS1256 record keeps its optional load-cell endstop: \<open>None\<close> when none
  is attached, otherwise the samples forwarded to it with their timestamps.
\<close>

record load_cell_adc =
  timer :: timer
  rest_ticks :: "32 word"
  sb :: sensor_bulk

record pending_adc = load_cell_adc +
  pending_flag :: "8 word"

record hx71x_adc = pending_adc +
  gain_channel :: "8 word"
  sclk :: bool

type_synonym ads1220_adc = pending_adc

record ads1256_adc = load_cell_adc +
  flags :: "8 word"
  lce :: "(32 word \<times> 32 word) list option"

definition FLAG_PENDING :: "8 word" where
  "FLAG_PENDING = push_bit 0 1"

subsection \<open>HX71x and ADS1220: helpers with the same code in both files\<close>

text \<open>
  \<open>hx71x_reschedule_timer\<close> and \<open>ads1220_reschedule_timer\<close>: the wake time becomes
  the current time plus \<open>rest_ticks\<close> and the timer is added. The current time is the
  argument \<open>now\<close>.
\<close>

definition reschedule_timer :: "32 word \<Rightarrow> 'a load_cell_adc_scheme \<Rightarrow> 'a load_cell_adc_scheme" where
  "reschedule_timer now s =
     s\<lparr>timer := sched_add_timer ((timer s)\<lparr>waketime := now + rest_ticks s\<rparr>)\<rparr>"

text \<open>\<open>send_error\<close> of both files: log the error to the data stream and flush.\<close>

definition send_error :: "'a pending_adc_scheme \<Rightarrow> 8 word \<Rightarrow> 8 word \<Rightarrow> fault + 'a pending_adc_scheme" where
  "send_error s oid error_code =
     (case add_sample (sb s) SAMPLE_ERROR of
        Inl e \<Rightarrow> Inl e
      | Inr b \<Rightarrow>
          Inr (s\<lparr>pending_flag := 0,
                 sb := sensor_bulk_report (b\<lparr>possible_overflows := unat error_code\<rparr>) oid\<rparr>))"

text \<open>
  The decoding both files apply to the 24-bit reading held in an \<open>int32_t\<close>: the
  midpoint is taken for a negative zero, a larger value is extended to 32 bits.
\<close>

definition decode_counts :: "32 word \<Rightarrow> 32 word" where
  "decode_counts counts =
     (if counts = 0x800000 then 0
      else if sint counts > 0x800000 then counts OR 0xFF000000
      else counts)"

definition out_of_range :: "32 word \<Rightarrow> bool" where
  "out_of_range counts = (sint counts < - 0x7FFFFF \<or> sint counts > 0x7FFFFF)"

text \<open>
  The end of both \<open>read_adc\<close> functions, from the range check on: an out-of-range count
  becomes an error record, any other is appended, the buffer flushed when it is nearly
  full, the pending flag cleared and the timer re-armed. \<open>ERROR_OUT_OF_RANGE\<close> is 3 in
  the HX71x file and 2 in the ADS1220 file, so it is an argument here.
\<close>

definition store_counts ::
  "8 word \<Rightarrow> 32 word \<Rightarrow> 'a pending_adc_scheme \<Rightarrow> 8 word \<Rightarrow> 32 word \<Rightarrow> fault + 'a pending_adc_scheme" where
  "store_counts ERROR_OUT_OF_RANGE now s oid counts =
     (if out_of_range counts then send_error s oid ERROR_OUT_OF_RANGE
      else case add_sample (sb s) counts of
        Inl e \<Rightarrow> Inl e
      | Inr b \<Rightarrow>
          Inr (reschedule_timer now (s\<lparr>sb := flush_samples b oid, pending_flag := 0\<rparr>)))"

subsection \<open>HX71x\<close>

definition ERROR_READY_AFTER_READ :: "8 word" where
  "ERROR_READY_AFTER_READ = 1"

definition hx71x_ERROR_READ_TOO_LONG :: "8 word" where
  "hx71x_ERROR_READ_TOO_LONG = 2"

definition hx71x_ERROR_OUT_OF_RANGE :: "8 word" where
  "hx71x_ERROR_OUT_OF_RANGE = 3"

text \<open>
  What the hardware supplies to one call of \<open>hx71x_read_adc\<close>, in program order: the
  level of the data pin at the readiness check, the clock at the start of the read, the
  level of the data pin after each of the 24 clock pulses, its level at the check after
  the read, the clock after the read, and the clock when the timer is re-armed.
\<close>

record hx71x_io =
  dout_check :: bool
  start_time :: "32 word"
  dout_bits :: "nat \<Rightarrow> bool"
  dout_after :: bool
  end_time :: "32 word"
  resched_time :: "32 word"

text \<open>\<open>hx71x_event\<close>: the timer handler flags the sensor and asks not to be rescheduled.\<close>

definition hx71x_event :: "hx71x_adc \<Rightarrow> hx71x_adc \<times> sched_flag" where
  "hx71x_event hx = (hx\<lparr>pending_flag := 1\<rparr>, SF_DONE)"

text \<open>If the data pin is high the sample is not ready.\<close>

definition hx71x_is_data_ready :: "bool \<Rightarrow> bool" where
  "hx71x_is_data_ready dout = (\<not> dout)"

text \<open>
  One clock pulse drives \<open>sclk\<close> high and then low. The busy waits that keep each level
  for the minimum pulse time are not modelled.
\<close>

definition hx71x_pulse_clocks :: "hx71x_adc \<Rightarrow> hx71x_adc" where
  "hx71x_pulse_clocks hx = (hx\<lparr>sclk := True\<rparr>)\<lparr>sclk := False\<rparr>"

text \<open>The first loop of \<open>hx71x_read_adc\<close>: 24 pulses, one bit read after each.\<close>

definition hx71x_shift_in :: "(nat \<Rightarrow> bool) \<Rightarrow> hx71x_adc \<times> 32 word \<Rightarrow> hx71x_adc \<times> 32 word" where
  "hx71x_shift_in dout =
     fold (\<lambda>sample_idx (hx, counts).
             (hx71x_pulse_clocks hx, push_bit 1 counts OR of_bool (dout sample_idx)))
          [0..<24]"

text \<open>The second loop: one to four more pulses select gain and channel.\<close>

definition hx71x_gain_pulses :: "hx71x_adc \<Rightarrow> hx71x_adc" where
  "hx71x_gain_pulses hx =
     fold (\<lambda>gain_idx h. hx71x_pulse_clocks h) [0..<unat (gain_channel hx)] hx"

text \<open>
  \<open>MAX_READ_TIME\<close> is \<open>timer_from_us(50)\<close>, which depends on the board's clock; it is
  an argument. Times are tick counts of type \<open>hx71x_time_t\<close>, an \<open>unsigned int\<close> taken
  as 32 bits wide, and their difference wraps. The pulses change nothing but the clock
  pin, so the state the rest of the function works on is the one after both loops.
\<close>

definition hx71x_read_adc :: "32 word \<Rightarrow> hx71x_io \<Rightarrow> hx71x_adc \<Rightarrow> 8 word \<Rightarrow> fault + hx71x_adc" where
  "hx71x_read_adc MAX_READ_TIME io hx oid =
     (if \<not> hx71x_is_data_ready (dout_check io) then Inr (reschedule_timer (resched_time io) hx)
      else
        let (hx1, counts) = hx71x_shift_in (dout_bits io) (hx, 0);
            hx2 = hx71x_gain_pulses hx1
        in if hx71x_is_data_ready (dout_after io) then send_error hx2 oid ERROR_READY_AFTER_READ
           else
             let time_diff = end_time io - start_time io
             in if time_diff \<ge> MAX_READ_TIME then send_error hx2 oid hx71x_ERROR_READ_TOO_LONG
                else store_counts hx71x_ERROR_OUT_OF_RANGE (resched_time io) hx2 oid
                       (decode_counts counts))"

text \<open>
  \<open>command_query_hx71x\<close>: start or stop capturing. \<open>args1\<close> is the \<open>rest_ticks\<close>
  argument of the command, \<open>now\<close> the clock when the timer is armed.
\<close>

definition command_query_hx71x :: "32 word \<Rightarrow> 32 word \<Rightarrow> hx71x_adc \<Rightarrow> hx71x_adc" where
  "command_query_hx71x args1 now hx =
     (let hx1 = hx\<lparr>timer := sched_del_timer (timer hx), pending_flag := 0, rest_ticks := args1\<rparr>
      in if rest_ticks hx1 = 0 then hx1\<lparr>sclk := True\<rparr>
         else reschedule_timer now (hx1\<lparr>sclk := False, sb := sensor_bulk_reset (sb hx1)\<rparr>))"

text \<open>The body of the loop of \<open>hx71x_capture_task\<close> for one sensor.\<close>

definition hx71x_capture_task :: "32 word \<Rightarrow> hx71x_io \<Rightarrow> hx71x_adc \<Rightarrow> 8 word \<Rightarrow> fault + hx71x_adc" where
  "hx71x_capture_task MAX_READ_TIME io hx oid =
     (if pending_flag hx \<noteq> 0 then hx71x_read_adc MAX_READ_TIME io hx oid else Inr hx)"

subsection \<open>ADS1220\<close>

definition ads1220_ERROR_READ_TOO_LONG :: "8 word" where
  "ads1220_ERROR_READ_TOO_LONG = 1"

definition ads1220_ERROR_OUT_OF_RANGE :: "8 word" where
  "ads1220_ERROR_OUT_OF_RANGE = 2"

text \<open>
  What the hardware supplies to one call of \<open>ads1220_read_adc\<close> or
  \<open>ads1256_read_adc\<close>: the level of the data-ready pin, the clock before the transfer,
  the three bytes received, the clock after the transfer, and the clock when the timer is
  re-armed.
\<close>

record spi_io =
  data_ready :: bool
  spi_start_time :: "32 word"
  msg0 :: "8 word"
  msg1 :: "8 word"
  msg2 :: "8 word"
  spi_end_time :: "32 word"
  spi_resched_time :: "32 word"

definition ads1220_event :: "ads1220_adc \<Rightarrow> ads1220_adc \<times> sched_flag" where
  "ads1220_event s = (s\<lparr>pending_flag := 1\<rparr>, SF_DONE)"

text \<open>The chip is ready when the pin reads 0.\<close>

definition ads1220_is_data_ready :: "bool \<Rightarrow> bool" where
  "ads1220_is_data_ready pin = ((of_bool pin :: 8 word) = 0)"

text \<open>The 24-bit word built from the three bytes, most significant first.\<close>

definition spi_counts :: "spi_io \<Rightarrow> 32 word" where
  "spi_counts io = push_bit 16 (ucast (msg0 io)) OR push_bit 8 (ucast (msg1 io)) OR ucast (msg2 io)"

definition ads1220_read_adc :: "32 word \<Rightarrow> spi_io \<Rightarrow> ads1220_adc \<Rightarrow> 8 word \<Rightarrow> fault + ads1220_adc" where
  "ads1220_read_adc MAX_SPI_READ_TIME io s oid =
     (if \<not> ads1220_is_data_ready (data_ready io) then Inr (reschedule_timer (spi_resched_time io) s)
      else
        let time_diff = spi_end_time io - spi_start_time io
        in if time_diff \<ge> MAX_SPI_READ_TIME then send_error s oid ads1220_ERROR_READ_TOO_LONG
           else store_counts ads1220_ERROR_OUT_OF_RANGE (spi_resched_time io) s oid
                  (decode_counts (spi_counts io)))"

definition command_query_ads1220 :: "32 word \<Rightarrow> 32 word \<Rightarrow> ads1220_adc \<Rightarrow> ads1220_adc" where
  "command_query_ads1220 args1 now s =
     (let s1 = s\<lparr>timer := sched_del_timer (timer s), pending_flag := 0, rest_ticks := args1\<rparr>
      in if rest_ticks s1 = 0 then s1
         else reschedule_timer now (s1\<lparr>sb := sensor_bulk_reset (sb s1)\<rparr>))"

text \<open>The body of the loop of \<open>ads1220_capture_task\<close> for one sensor.\<close>

definition ads1220_capture_task :: "32 word \<Rightarrow> spi_io \<Rightarrow> ads1220_adc \<Rightarrow> 8 word \<Rightarrow> fault + ads1220_adc" where
  "ads1220_capture_task MAX_SPI_READ_TIME io s oid =
     (if pending_flag s \<noteq> 0 then ads1220_read_adc MAX_SPI_READ_TIME io s oid else Inr s)"

subsection \<open>ADS1256\<close>

definition is_flag_set :: "8 word \<Rightarrow> ads1256_adc \<Rightarrow> 8 word" where
  "is_flag_set msk s = of_bool (msk AND flags s \<noteq> 0)"

definition set_flag :: "8 word \<Rightarrow> ads1256_adc \<Rightarrow> ads1256_adc" where
  "set_flag msk s = s\<lparr>flags := flags s OR msk\<rparr>"

definition clear_flag :: "8 word \<Rightarrow> ads1256_adc \<Rightarrow> ads1256_adc" where
  "clear_flag msk s = s\<lparr>flags := flags s AND NOT msk\<rparr>"

definition ads1256_event :: "ads1256_adc \<Rightarrow> ads1256_adc \<times> sched_flag" where
  "ads1256_event s = (set_flag FLAG_PENDING s, SF_DONE)"

text \<open>Unlike the other two, re-arming the ADS1256 timer also sets the pending flag.\<close>

definition ads1256_reschedule_timer :: "32 word \<Rightarrow> ads1256_adc \<Rightarrow> ads1256_adc" where
  "ads1256_reschedule_timer now s =
     (let s1 = set_flag FLAG_PENDING s
      in s1\<lparr>timer := sched_add_timer ((timer s1)\<lparr>waketime := now + rest_ticks s1\<rparr>)\<rparr>)"

definition ads1256_is_data_ready :: "bool \<Rightarrow> bool" where
  "ads1256_is_data_ready pin = ((of_bool pin :: 8 word) = 0)"

text \<open>
  The extension of the 24-bit word to 32 bits: \<open>m = 1u << (24 - 1)\<close> and
  \<open>counts = (counts_original ^ m) - m\<close>, in unsigned 32-bit arithmetic.
\<close>

definition ads1256_sign_extend :: "32 word \<Rightarrow> 32 word" where
  "ads1256_sign_extend counts_original =
     (let m = push_bit (24 - 1) 1 in (counts_original XOR m) - m)"

text \<open>
  Modelled from the spec: \<open>load_cell_endstop_report_sample\<close>
  (\<open>load_cell_endstop.h\<close>) is not among the sources. An attached consumer is handed
  the sample with the timestamp of the start of the read.
\<close>

definition load_cell_endstop_report_sample ::
  "(32 word \<times> 32 word) list \<Rightarrow> 32 word \<Rightarrow> 32 word \<Rightarrow> (32 word \<times> 32 word) list" where
  "load_cell_endstop_report_sample e counts start = e @ [(counts, start)]"

text \<open>
  \<open>ads1256_read_adc\<close>. The three failures end in \<open>shutdown\<close>, which does not return;
  the assignment \<open>counts |= 0xFF000000\<close> just before the last of them has no effect
  that outlives it.
\<close>

definition ads1256_read_adc :: "32 word \<Rightarrow> spi_io \<Rightarrow> ads1256_adc \<Rightarrow> 8 word \<Rightarrow> fault + ads1256_adc" where
  "ads1256_read_adc MAX_SPI_READ_TIME io s oid =
     (if \<not> ads1256_is_data_ready (data_ready io)
      then Inr (ads1256_reschedule_timer (spi_resched_time io) s)
      else
        let time_diff = spi_end_time io - spi_start_time io
        in if time_diff \<ge> MAX_SPI_READ_TIME
           then Inl (Shutdown ''ads1256 read timing error, read took too long'')
           else
             let counts = ads1256_sign_extend (spi_counts io)
             in if counts = - 1 then Inl (Shutdown ''ads1256: Possible bad read'')
                else if sint counts \<ge> 0x800000 then Inl (Shutdown ''ads1256: Invalid Counts'')
                else case add_sample (sb s) counts of
                  Inl e \<Rightarrow> Inl e
                | Inr b \<Rightarrow>
                    let s1 = s\<lparr>sb := b\<rparr>;
                        s2 = (case lce s1 of
                                None \<Rightarrow> s1
                              | Some e \<Rightarrow>
                                  s1\<lparr>lce := Some (load_cell_endstop_report_sample e counts
                                                     (spi_start_time io))\<rparr>)
                    in Inr (ads1256_reschedule_timer (spi_resched_time io)
                              (s2\<lparr>sb := flush_samples (sb s2) oid\<rparr>)))"

definition command_query_ads1256 :: "32 word \<Rightarrow> 32 word \<Rightarrow> ads1256_adc \<Rightarrow> ads1256_adc" where
  "command_query_ads1256 args1 now s =
     (let s1 = s\<lparr>timer := sched_del_timer (timer s), flags := 0, rest_ticks := args1\<rparr>
      in if rest_ticks s1 = 0 then s1
         else ads1256_reschedule_timer now (s1\<lparr>sb := sensor_bulk_reset (sb s1)\<rparr>))"

text \<open>The body of the loop of \<open>ads1256_capture_task\<close> for one sensor.\<close>

definition ads1256_capture_task :: "32 word \<Rightarrow> spi_io \<Rightarrow> ads1256_adc \<Rightarrow> 8 word \<Rightarrow> fault + ads1256_adc" where
  "ads1256_capture_task MAX_SPI_READ_TIME io s oid =
     (if flags s AND FLAG_PENDING \<noteq> 0 then ads1256_read_adc MAX_SPI_READ_TIME io s oid
      else Inr s)"

subsection \<open>A sensor over time\<close>

text \<open>
  Modelled from the spec: the scheduler that runs timers and tasks (\<open>sched.c\<close>) is not
  among the sources. A scheduled timer that fires runs its handler and, the handler returning
  \<open>SF_DONE\<close>, is no longer scheduled; a timer that is not scheduled does not fire.
\<close>

definition timer_fires ::
  "('a load_cell_adc_scheme \<Rightarrow> 'a load_cell_adc_scheme \<times> sched_flag) \<Rightarrow>
     'a load_cell_adc_scheme \<Rightarrow> 'a load_cell_adc_scheme" where
  "timer_fires func s =
     (if scheduled (timer s)
      then case func s of
             (s1, SF_DONE) \<Rightarrow> s1\<lparr>timer := sched_del_timer (timer s1)\<rparr>
           | (s1, SF_RESCHEDULE) \<Rightarrow> s1
      else s)"

text \<open>
  What can happen to one sensor: its timer fires, the background task wakes and visits
  it, or the host sends a query command with a \<open>rest_ticks\<close> argument.
\<close>

datatype 'io step = Timer_Fires | Task_Wakes 'io | Query "32 word" "32 word"

definition hx71x_step :: "32 word \<Rightarrow> 8 word \<Rightarrow> hx71x_adc \<Rightarrow> hx71x_io step \<Rightarrow> fault + hx71x_adc" where
  "hx71x_step MAX_READ_TIME oid hx e =
     (case e of
        Timer_Fires \<Rightarrow> Inr (timer_fires hx71x_event hx)
      | Task_Wakes io \<Rightarrow> hx71x_capture_task MAX_READ_TIME io hx oid
      | Query args1 now \<Rightarrow> Inr (command_query_hx71x args1 now hx))"

definition ads1220_step :: "32 word \<Rightarrow> 8 word \<Rightarrow> ads1220_adc \<Rightarrow> spi_io step \<Rightarrow> fault + ads1220_adc" where
  "ads1220_step MAX_SPI_READ_TIME oid s e =
     (case e of
        Timer_Fires \<Rightarrow> Inr (timer_fires ads1220_event s)
      | Task_Wakes io \<Rightarrow> ads1220_capture_task MAX_SPI_READ_TIME io s oid
      | Query args1 now \<Rightarrow> Inr (command_query_ads1220 args1 now s))"

definition ads1256_step :: "32 word \<Rightarrow> 8 word \<Rightarrow> ads1256_adc \<Rightarrow> spi_io step \<Rightarrow> fault + ads1256_adc" where
  "ads1256_step MAX_SPI_READ_TIME oid s e =
     (case e of
        Timer_Fires \<Rightarrow> Inr (timer_fires ads1256_event s)
      | Task_Wakes io \<Rightarrow> ads1256_capture_task MAX_SPI_READ_TIME io s oid
      | Query args1 now \<Rightarrow> Inr (command_query_ads1256 args1 now s))"

text \<open>A run stops at the first fault.\<close>

fun run :: "('s \<Rightarrow> 'e \<Rightarrow> fault + 's) \<Rightarrow> 's \<Rightarrow> 'e list \<Rightarrow> fault + 's" where
  "run f s [] = Inr s"
| "run f s (e # es) = (case f s e of Inl x \<Rightarrow> Inl x | Inr s1 \<Rightarrow> run f s1 es)"

text \<open>
  A buffer is ready for an append when its fill count is a multiple of four and one more
  sample fits.
\<close>

definition append_ready :: "sensor_bulk \<Rightarrow> bool" where
  "append_ready b = (4 dvd data_count b \<and> data_count b + BYTES_PER_SAMPLE \<le> ARRAY_SIZE b)"

text \<open>
  The sign extension of a 24-bit word as the specification words it: the word itself
  below \<open>0x800000\<close>, the word with the top byte set from there on.
\<close>

definition sign_extend24 :: "32 word \<Rightarrow> 32 word" where
  "sign_extend24 v = (if v < 0x800000 then v else v OR 0xFF000000)"

subsection \<open>Example states and inputs\<close>

text \<open>
  A stopped sensor of each kind with an empty buffer of eight bytes, and inputs for the
  outcomes of a poll: the chip not ready, a good reading, the data pin low again after
  an HX71x read, a read that takes exactly the maximum of 600 ticks, and the ADS1256
  words \<open>0x800000\<close> and \<open>0xFFFFFF\<close>.
\<close>

definition example_sb :: sensor_bulk where
  "example_sb = \<lparr>data = [0, 0, 0, 0, 0, 0, 0, 0], data_count = 0, possible_overflows = 0, host_reports = []\<rparr>"

definition example_hx71x :: hx71x_adc where
  "example_hx71x = \<lparr>timer = \<lparr>waketime = 0, scheduled = False\<rparr>, rest_ticks = 0, sb = example_sb,
     pending_flag = 0, gain_channel = 1, sclk = True\<rparr>"

definition example_ads1220 :: ads1220_adc where
  "example_ads1220 = \<lparr>timer = \<lparr>waketime = 0, scheduled = False\<rparr>, rest_ticks = 0, sb = example_sb,
     pending_flag = 0\<rparr>"

definition example_ads1256 :: ads1256_adc where
  "example_ads1256 = \<lparr>timer = \<lparr>waketime = 0, scheduled = False\<rparr>, rest_ticks = 0, sb = example_sb,
     flags = 0, lce = None\<rparr>"

definition hx71x_not_ready :: hx71x_io where
  "hx71x_not_ready = \<lparr>dout_check = True, start_time = 0, dout_bits = (\<lambda>i. False),
     dout_after = True, end_time = 0, resched_time = 2000\<rparr>"

definition hx71x_reading :: hx71x_io where
  "hx71x_reading = \<lparr>dout_check = False, start_time = 2000, dout_bits = (\<lambda>i. i = 23),
     dout_after = True, end_time = 2100, resched_time = 2200\<rparr>"

definition hx71x_ready_after :: hx71x_io where
  "hx71x_ready_after = \<lparr>dout_check = False, start_time = 2000, dout_bits = (\<lambda>i. i = 23),
     dout_after = False, end_time = 2100, resched_time = 2200\<rparr>"

definition hx71x_at_limit :: hx71x_io where
  "hx71x_at_limit = \<lparr>dout_check = False, start_time = 2000, dout_bits = (\<lambda>i. i = 23),
     dout_after = True, end_time = 2600, resched_time = 2700\<rparr>"

definition spi_not_ready :: spi_io where
  "spi_not_ready = \<lparr>data_ready = True, spi_start_time = 0, msg0 = 0, msg1 = 0, msg2 = 0,
     spi_end_time = 0, spi_resched_time = 2000\<rparr>"

definition spi_reading :: spi_io where
  "spi_reading = \<lparr>data_ready = False, spi_start_time = 2000, msg0 = 0, msg1 = 0, msg2 = 1,
     spi_end_time = 2100, spi_resched_time = 2200\<rparr>"

definition spi_at_limit :: spi_io where
  "spi_at_limit = \<lparr>data_ready = False, spi_start_time = 2000, msg0 = 0, msg1 = 0, msg2 = 1,
     spi_end_time = 2600, spi_resched_time = 2700\<rparr>"

definition spi_midpoint :: spi_io where
  "spi_midpoint = \<lparr>data_ready = False, spi_start_time = 2000, msg0 = 0x80, msg1 = 0, msg2 = 0,
     spi_end_time = 2100, spi_resched_time = 2200\<rparr>"

definition spi_all_ones :: spi_io where
  "spi_all_ones = \<lparr>data_ready = False, spi_start_time = 2000, msg0 = 0xFF, msg1 = 0xFF,
     msg2 = 0xFF, spi_end_time = 2100, spi_resched_time = 2200\<rparr>"

text \<open>
  Three short histories of a stopped sensor: a start command with \<open>rest_ticks = 1000\<close>
  at time 0, the timer firing, and one poll. The HX71x poll finds the data pin low again
  after the read, or finds the chip not ready; the ADS1256 poll reads the word
  \<open>0x800000\<close>.
\<close>

definition hx71x_error_run :: "hx71x_io step list" where
  "hx71x_error_run = [Query 1000 0, Timer_Fires, Task_Wakes hx71x_ready_after]"

definition hx71x_deferred_run :: "hx71x_io step list" where
  "hx71x_deferred_run = [Query 1000 0, Timer_Fires, Task_Wakes hx71x_not_ready]"

definition ads1256_midpoint_run :: "spi_io step list" where
  "ads1256_midpoint_run = [Query 1000 0, Timer_Fires, Task_Wakes spi_midpoint]"

section \<open>Properties\<close>

subsection \<open>24-bit words in 32 bits\<close>

lemma bit23_iff: "v \<le> 0xFFFFFF \<Longrightarrow> bit v 23 \<longleftrightarrow> 0x800000 \<le> v" for v :: "32 word"
proof -
  assume "v \<le> 0xFFFFFF"
  then have b: "uint v \<le> 0xFFFFFF" by (simp add: word_le_def)
  have "bit v 23 \<longleftrightarrow> bit (uint v) 23" by (simp add: bit_uint_iff)
  also have "\<dots> \<longleftrightarrow> odd (uint v div 2 ^ 23)" by (simp only: bit_iff_odd)
  also have "\<dots> \<longleftrightarrow> 0x800000 \<le> uint v"
  proof (cases "uint v < 0x800000")
    case True
    then have "uint v div 2 ^ 23 = 0" by (simp add: div_pos_pos_trivial)
    with True show ?thesis by simp
  next
    case False
    have "uint v = 2 ^ 23 * 1 + (uint v - 0x800000)" by simp
    moreover have "0 \<le> uint v - 0x800000" using False by simp
    moreover have "uint v - 0x800000 < 2 ^ 23" using b by simp
    ultimately have "uint v div 2 ^ 23 = 1" by (rule int_div_pos_eq)
    with False show ?thesis by simp
  qed
  finally show ?thesis by (simp add: word_le_def)
qed

lemma sign_extend_if:
  "ads1256_sign_extend v = (if bit v 23 then v - 0x1000000 else v)"
proof -
  have "v XOR push_bit 23 1 = flip_bit 23 v" by (simp add: flip_bit_eq_xor)
  then show ?thesis
    by (simp add: ads1256_sign_extend_def flip_bit_eq_if set_bit_eq unset_bit_eq)
qed

lemma take_bit_and_push_bit: "take_bit n a AND push_bit n b = 0" for a b :: "32 word"
  by (rule bit_eqI) (auto simp: bit_simps)

lemma or_high_byte: "v \<le> 0xFFFFFF \<Longrightarrow> v OR 0xFF000000 = v - 0x1000000" for v :: "32 word"
proof -
  assume "v \<le> 0xFFFFFF"
  then have "uint v < 2 ^ 24" by (simp add: word_le_def)
  then have "uint (take_bit 24 v) = uint v"
    by (simp add: unsigned_take_bit_eq take_bit_int_eq_self)
  then have t: "take_bit 24 v = v" by (simp add: word_uint_eq_iff)
  have "take_bit 24 v AND push_bit 24 0xFF = 0" by (rule take_bit_and_push_bit)
  then have "v AND 0xFF000000 = 0" by (simp add: t)
  then have o: "v + 0xFF000000 = v OR 0xFF000000" by (rule disjunctive_add_eq_or)
  have n: "(- 0x1000000 :: 32 word) = 0xFF000000" by simp
  have "v - 0x1000000 = v + (- 0x1000000)" by (simp only: diff_conv_add_uminus)
  also have "\<dots> = v + 0xFF000000" by (simp only: n)
  finally show ?thesis by (simp only: o)
qed

lemma sint_low: "v < 0x800000 \<Longrightarrow> sint v = uint v" for v :: "32 word"
proof -
  assume "v < 0x800000"
  then have "uint v < 0x800000" by (simp add: word_less_def)
  moreover have "- (2 ^ 31) \<le> uint v" by (rule order_trans [OF _ uint_ge_0]) simp
  ultimately have "signed_take_bit 31 (uint v) = uint v"
    by (intro signed_take_bit_int_eq_self) simp_all
  then show ?thesis by (simp add: sint_uint)
qed

lemma sint_high: "0x800000 \<le> v \<Longrightarrow> v \<le> 0xFFFFFF \<Longrightarrow> sint (v - 0x1000000) = uint v - 0x1000000"
  for v :: "32 word"
proof -
  assume "0x800000 \<le> v" "v \<le> 0xFFFFFF"
  then have b: "0x800000 \<le> uint v" "uint v \<le> 0xFFFFFF" by (simp_all add: word_le_def)
  have "v - 0x1000000 = word_of_int (uint v - 0x1000000)" by simp
  then have "sint (v - 0x1000000) = signed_take_bit 31 (uint v - 0x1000000)"
    by (simp only: sint_sbintrunc') simp
  also have "\<dots> = uint v - 0x1000000"
    using b by (intro signed_take_bit_int_eq_self) simp_all
  finally show ?thesis .
qed

lemma decode_cases:
  fixes v :: "32 word"
  assumes "v \<le> 0xFFFFFF"
  shows "decode_counts v = (if v = 0x800000 then 0 else if v < 0x800000 then v else v - 0x1000000)"
proof -
  from assms have b: "uint v \<le> 0xFFFFFF" by (simp add: word_le_def)
  show ?thesis
  proof (cases "v < 0x800000")
    case True
    then have "sint v = uint v" by (rule sint_low)
    moreover from True have "uint v < 0x800000" by (simp add: word_less_def)
    ultimately show ?thesis using True by (auto simp: decode_counts_def)
  next
    case False
    then have ge: "0x800000 \<le> v" by simp
    then have u: "0x800000 \<le> uint v" by (simp add: word_le_def)
    have s: "sint v = uint v"
    proof -
      have "- (2 ^ 31) \<le> uint v" by (rule order_trans [OF _ uint_ge_0]) simp
      moreover have "uint v < 2 ^ 31" using b by simp
      ultimately have "signed_take_bit 31 (uint v) = uint v"
        by (intro signed_take_bit_int_eq_self) simp_all
      then show ?thesis by (simp add: sint_uint)
    qed
    have "v \<noteq> 0x800000 \<Longrightarrow> 0x800000 < uint v"
      using u by (auto simp: word_uint_eq_iff)
    then show ?thesis using False s or_high_byte [OF assms]
      by (auto simp: decode_counts_def)
  qed
qed

lemma shift_step:
  fixes c :: "32 word"
  assumes "take_bit n c = c"
  shows "take_bit (Suc n) (push_bit 1 c OR of_bool b) = push_bit 1 c OR of_bool b"
proof (rule bit_eqI)
  fix k
  have c: "bit c j \<Longrightarrow> j < n" for j
    using assms by (metis bit_take_bit_iff)
  show "bit (take_bit (Suc n) (push_bit 1 c OR of_bool b)) k = bit (push_bit 1 c OR of_bool b) k"
    unfolding bit_take_bit_iff bit_or_iff bit_push_bit_iff bit_of_bool_iff
    using c [of "k - 1"] by auto
qed

lemma shift_step_simps:
  fixes c :: "32 word"
  assumes "take_bit n c = c"
  shows "take_bit (Suc n) (c * 2 OR 1) = c * 2 OR 1" and "take_bit (Suc n) (c * 2) = c * 2"
  using shift_step [OF assms, of True] shift_step [OF assms, of False] by simp_all

lemma shift_in_take_bit:
  "take_bit n (snd (fold (\<lambda>sample_idx (hx, counts).
             (hx71x_pulse_clocks hx, push_bit 1 counts OR of_bool (dout sample_idx)))
          [0..<n] (hx, 0 :: 32 word))) 
   = snd (fold (\<lambda>sample_idx (hx, counts).
             (hx71x_pulse_clocks hx, push_bit 1 counts OR of_bool (dout sample_idx)))
          [0..<n] (hx, 0 :: 32 word))"
proof (induction n)
  case 0
  show ?case by simp
next
  case (Suc n)
  then show ?case
    by (simp add: case_prod_unfold shift_step_simps)
qed

lemma take_bit_24_le: "take_bit 24 c = c \<Longrightarrow> c \<le> 0xFFFFFF" for c :: "32 word"
proof -
  assume "take_bit 24 c = c"
  then have "uint c = take_bit 24 (uint c)" by (metis unsigned_take_bit_eq)
  moreover have "take_bit 24 (uint c) < 2 ^ 24" by (rule take_bit_int_less_exp)
  ultimately show ?thesis by (simp add: word_le_def)
qed

lemma hx71x_shift_in_24bit: "snd (hx71x_shift_in dout (hx, 0)) \<le> 0xFFFFFF"
  unfolding hx71x_shift_in_def by (rule take_bit_24_le) (rule shift_in_take_bit)

lemma spi_counts_24bit: "spi_counts io \<le> 0xFFFFFF"
proof (rule take_bit_24_le, rule bit_eqI)
  fix k
  show "bit (take_bit 24 (spi_counts io)) k = bit (spi_counts io) k"
    by (auto simp: spi_counts_def bit_simps dest: bit_imp_le_length)
qed

lemma take_update4:
  "n + 4 \<le> length xs \<Longrightarrow>
     take (n + 4) (xs[n := a, n + 1 := b, n + 2 := c, n + 3 := d]) = take n xs @ [a, b, c, d]"
  by (auto intro!: nth_equalityI simp: nth_append nth_list_update less_Suc_eq numeral_eq_Suc)

subsection \<open>Appending and flushing\<close>

lemma sentinel_bytes:
  "ucast SAMPLE_ERROR = (0 :: 8 word)" "ucast (drop_bit 8 SAMPLE_ERROR) = (0 :: 8 word)"
  "ucast (drop_bit 16 SAMPLE_ERROR) = (0 :: 8 word)" "ucast (drop_bit 24 SAMPLE_ERROR) = (0x80 :: 8 word)"
  by (simp_all add: SAMPLE_ERROR_def)

lemma add_sample_overrun:
  "ARRAY_SIZE b < data_count b + 4 \<Longrightarrow> add_sample b counts = Inl Out_Of_Bounds"
  by (simp add: add_sample_def Let_def)

lemma add_sample_result:
  assumes "data_count b + 4 \<le> ARRAY_SIZE b"
  shows "\<exists>b'. add_sample b counts = Inr b'
           \<and> data_count b' = data_count b + 4
           \<and> take (data_count b') (data b') = take (data_count b) (data b) @
                [ucast counts, ucast (drop_bit 8 counts), ucast (drop_bit 16 counts),
                 ucast (drop_bit 24 counts)]
           \<and> ARRAY_SIZE b' = ARRAY_SIZE b
           \<and> possible_overflows b' = possible_overflows b
           \<and> host_reports b' = host_reports b"
  using assms
    take_update4 [of "data_count b" "data b" "ucast counts" "ucast (drop_bit 8 counts)"
      "ucast (drop_bit 16 counts)" "ucast (drop_bit 24 counts)"]
  by (simp add: add_sample_def Let_def BYTES_PER_SAMPLE_def ARRAY_SIZE_def)

lemma send_error_result:
  assumes "data_count (sb s) + 4 \<le> ARRAY_SIZE (sb s)"
  shows "\<exists>b s'. add_sample (sb s) SAMPLE_ERROR = Inr b
           \<and> send_error s oid code = Inr s'
           \<and> sb s' = sensor_bulk_report (b\<lparr>possible_overflows := unat code\<rparr>) oid
           \<and> data_count (sb s') = 0
           \<and> host_reports (sb s') = host_reports (sb s) @
                [(oid, take (data_count (sb s)) (data (sb s)) @ [0, 0, 0, 0x80])]
           \<and> ARRAY_SIZE (sb s') = ARRAY_SIZE (sb s)
           \<and> pending_flag s' = 0
           \<and> timer s' = timer s \<and> rest_ticks s' = rest_ticks s"
proof -
  from add_sample_result [OF assms, of SAMPLE_ERROR] obtain b' where
    b': "add_sample (sb s) SAMPLE_ERROR = Inr b'" "data_count b' = data_count (sb s) + 4"
      "take (data_count b') (data b') = take (data_count (sb s)) (data (sb s)) @ [0, 0, 0, 0x80]"
      "ARRAY_SIZE b' = ARRAY_SIZE (sb s)" "host_reports b' = host_reports (sb s)"
    by (auto simp: sentinel_bytes)
  then show ?thesis
    by (simp add: send_error_def sensor_bulk_report_def ARRAY_SIZE_def)
qed

subsection \<open>Range of the decoded counts\<close>

lemma decode_range:
  fixes v :: "32 word"
  assumes "v \<le> 0xFFFFFF"
  shows "- 0x7FFFFF \<le> sint (decode_counts v) \<and> sint (decode_counts v) \<le> 0x7FFFFF"
proof -
  from assms have b: "uint v \<le> 0xFFFFFF" by (simp add: word_le_def)
  consider "v = 0x800000" | "v < 0x800000" | "0x800000 < v" by fastforce
  then show ?thesis
  proof cases
    case 1
    then show ?thesis by (simp add: decode_counts_def)
  next
    case 2
    then have "uint v < 0x800000" by (simp add: word_less_def)
    moreover have "- 0x7FFFFF \<le> uint v" by (rule order_trans [OF _ uint_ge_0]) simp
    ultimately show ?thesis using 2 assms by (simp add: decode_cases sint_low)
  next
    case 3
    then have "0x800000 < uint v" by (simp add: word_less_def)
    moreover from 3 have "0x800000 \<le> v" "v \<noteq> 0x800000" "\<not> v < 0x800000" by simp_all
    ultimately show ?thesis using assms b by (simp add: decode_cases sint_high)
  qed
qed

subsection \<open>The shape of a poll\<close>

lemma hx71x_pulse_clocks_eq: "hx71x_pulse_clocks hx = hx\<lparr>sclk := False\<rparr>"
  by (simp add: hx71x_pulse_clocks_def)

lemma shift_in_fst:
  "fst (fold (\<lambda>sample_idx (hx, counts).
             (hx71x_pulse_clocks hx, push_bit 1 counts OR of_bool (dout sample_idx)))
          [0..<n] (hx, c :: 32 word)) = (if n = 0 then hx else hx\<lparr>sclk := False\<rparr>)"
  by (induction n) (simp_all add: case_prod_unfold hx71x_pulse_clocks_eq)

lemma hx71x_shift_in_fst: "fst (hx71x_shift_in dout (hx, c)) = hx\<lparr>sclk := False\<rparr>"
  unfolding hx71x_shift_in_def by (simp only: shift_in_fst) simp

lemma gain_pulses_low:
  "fold (\<lambda>gain_idx h. hx71x_pulse_clocks h) [0..<n] (hx\<lparr>sclk := False\<rparr>) = hx\<lparr>sclk := False\<rparr>"
  by (induction n) (simp_all add: hx71x_pulse_clocks_eq)

lemma hx71x_clocked:
  "hx71x_gain_pulses (fst (hx71x_shift_in dout (hx, c))) = hx\<lparr>sclk := False\<rparr>"
  by (simp add: hx71x_gain_pulses_def hx71x_shift_in_fst gain_pulses_low)

lemma hx71x_read_adc_unfold:
  "hx71x_read_adc MAX_READ_TIME io hx oid =
     (if dout_check io then Inr (reschedule_timer (resched_time io) hx)
      else if \<not> dout_after io then send_error (hx\<lparr>sclk := False\<rparr>) oid ERROR_READY_AFTER_READ
      else if MAX_READ_TIME \<le> end_time io - start_time io
        then send_error (hx\<lparr>sclk := False\<rparr>) oid hx71x_ERROR_READ_TOO_LONG
      else store_counts hx71x_ERROR_OUT_OF_RANGE (resched_time io) (hx\<lparr>sclk := False\<rparr>) oid
             (decode_counts (snd (hx71x_shift_in (dout_bits io) (hx, 0)))))"
proof -
  obtain h c where hc: "hx71x_shift_in (dout_bits io) (hx, 0) = (h, c)" by (cases "hx71x_shift_in (dout_bits io) (hx, 0)")
  then have "hx71x_gain_pulses h = hx\<lparr>sclk := False\<rparr>"
    using hx71x_clocked [of "dout_bits io" hx 0] by simp
  with hc show ?thesis
    by (simp add: hx71x_read_adc_def hx71x_is_data_ready_def Let_def)
qed

lemma ads1220_read_adc_unfold:
  "ads1220_read_adc MAX_SPI_READ_TIME io s oid =
     (if data_ready io then Inr (reschedule_timer (spi_resched_time io) s)
      else if MAX_SPI_READ_TIME \<le> spi_end_time io - spi_start_time io
        then send_error s oid ads1220_ERROR_READ_TOO_LONG
      else store_counts ads1220_ERROR_OUT_OF_RANGE (spi_resched_time io) s oid
             (decode_counts (spi_counts io)))"
  by (simp add: ads1220_read_adc_def ads1220_is_data_ready_def Let_def)

lemma store_counts_decoded:
  assumes "v \<le> 0xFFFFFF"
  shows "store_counts E now s oid (decode_counts v) =
     (case add_sample (sb s) (decode_counts v) of
        Inl e \<Rightarrow> Inl e
      | Inr b \<Rightarrow> Inr (reschedule_timer now (s\<lparr>sb := flush_samples b oid, pending_flag := 0\<rparr>)))"
  using decode_range [OF assms] by (simp add: store_counts_def out_of_range_def)

lemma decode_not_sentinel:
  assumes "v \<le> 0xFFFFFF"
  shows "decode_counts v \<noteq> SAMPLE_ERROR"
proof
  assume "decode_counts v = SAMPLE_ERROR"
  then have "sint (decode_counts v) = - 0x80000000" by (simp add: SAMPLE_ERROR_def)
  with decode_range [OF assms] show False by simp
qed

lemma example_ready: "append_ready example_sb"
  by (simp add: append_ready_def example_sb_def ARRAY_SIZE_def BYTES_PER_SAMPLE_def)

subsection \<open>Polls keep the buffer ready for an append\<close>

lemma append_ready_fits: "append_ready b \<Longrightarrow> data_count b + 4 \<le> ARRAY_SIZE b"
  by (simp add: append_ready_def BYTES_PER_SAMPLE_def)

lemma flush_samples_ready:
  assumes "4 dvd data_count b" "data_count b \<le> ARRAY_SIZE b" "4 \<le> ARRAY_SIZE b"
  shows "append_ready (flush_samples b oid)"
  using assms
  by (simp add: flush_samples_def append_ready_def sensor_bulk_report_def ARRAY_SIZE_def
      BYTES_PER_SAMPLE_def)

lemma add_sample_ready:
  assumes "append_ready b"
  shows "\<exists>b'. add_sample b counts = Inr b' \<and> 4 dvd data_count b'
           \<and> data_count b' \<le> ARRAY_SIZE b' \<and> 4 \<le> ARRAY_SIZE b'
           \<and> append_ready (flush_samples b' oid)"
proof -
  from assms have f: "data_count b + 4 \<le> ARRAY_SIZE b" and d: "4 dvd data_count b"
    by (simp_all add: append_ready_def BYTES_PER_SAMPLE_def)
  from add_sample_result [OF f, of counts] obtain b' where
    b': "add_sample b counts = Inr b'" "data_count b' = data_count b + 4"
      "ARRAY_SIZE b' = ARRAY_SIZE b" by blast
  with f d have p: "4 dvd data_count b'" "data_count b' \<le> ARRAY_SIZE b'" "4 \<le> ARRAY_SIZE b'"
    by simp_all
  with b' flush_samples_ready [OF p, of oid] show ?thesis by blast
qed

lemma send_error_ready:
  assumes "append_ready (sb s)"
  shows "\<exists>s'. send_error s oid code = Inr s' \<and> append_ready (sb s') \<and> pending_flag s' = 0
           \<and> timer s' = timer s \<and> rest_ticks s' = rest_ticks s"
proof -
  from send_error_result [OF append_ready_fits [OF assms], of oid code] obtain s' where
    s': "send_error s oid code = Inr s'" "data_count (sb s') = 0"
      "ARRAY_SIZE (sb s') = ARRAY_SIZE (sb s)" "pending_flag s' = 0"
      "timer s' = timer s" "rest_ticks s' = rest_ticks s" by blast
  with assms have "append_ready (sb s')" by (simp add: append_ready_def)
  with s' show ?thesis by blast
qed

lemma store_counts_sample:
  assumes "append_ready (sb s)" "\<not> out_of_range c"
  shows "\<exists>s'. store_counts E now s oid c = Inr s' \<and> append_ready (sb s') \<and> pending_flag s' = 0
           \<and> timer s' = \<lparr>waketime = now + rest_ticks s, scheduled = True\<rparr>
           \<and> rest_ticks s' = rest_ticks s"
proof -
  from add_sample_ready [OF assms(1), of c oid] obtain b' where
    "add_sample (sb s) c = Inr b'" "append_ready (flush_samples b' oid)" by blast
  with assms(2) show ?thesis
    by (simp add: store_counts_def reschedule_timer_def sched_add_timer_def)
qed

lemma store_counts_ready:
  assumes "append_ready (sb s)"
  shows "\<exists>s'. store_counts E now s oid c = Inr s' \<and> append_ready (sb s')"
proof (cases "out_of_range c")
  case True
  with send_error_ready [OF assms, of oid E] show ?thesis by (auto simp: store_counts_def)
next
  case False
  with store_counts_sample [OF assms, of c E now oid] show ?thesis by blast
qed

lemma reschedule_timer_sb [simp]: "sb (reschedule_timer now s) = sb s"
  by (simp add: reschedule_timer_def)

lemma hx71x_read_adc_ready:
  assumes "append_ready (sb hx)"
  shows "\<exists>hx'. hx71x_read_adc MAX_READ_TIME io hx oid = Inr hx' \<and> append_ready (sb hx')"
proof -
  from assms have r: "append_ready (sb (hx\<lparr>sclk := False\<rparr>))" by simp
  show ?thesis
    using assms send_error_ready [OF r, of oid ERROR_READY_AFTER_READ]
      send_error_ready [OF r, of oid hx71x_ERROR_READ_TOO_LONG]
      store_counts_ready [OF r]
    by (auto simp: hx71x_read_adc_unfold)
qed

lemma ads1220_read_adc_ready:
  assumes "append_ready (sb s)"
  shows "\<exists>s'. ads1220_read_adc MAX_SPI_READ_TIME io s oid = Inr s' \<and> append_ready (sb s')"
  using assms send_error_ready [OF assms, of oid ads1220_ERROR_READ_TOO_LONG]
    store_counts_ready [OF assms]
  by (auto simp: ads1220_read_adc_unfold)

lemma ads1256_reschedule_timer_sb [simp]: "sb (ads1256_reschedule_timer now s) = sb s"
  by (simp add: ads1256_reschedule_timer_def set_flag_def Let_def)

lemma ads1256_read_adc_ready:
  assumes "append_ready (sb s)"
  shows "(\<exists>s'. ads1256_read_adc MAX_SPI_READ_TIME io s oid = Inr s' \<and> append_ready (sb s'))
       \<or> (\<exists>m. ads1256_read_adc MAX_SPI_READ_TIME io s oid = Inl (Shutdown m))"
proof -
  from add_sample_ready [OF assms, of "ads1256_sign_extend (spi_counts io)" oid] obtain b' where
    "add_sample (sb s) (ads1256_sign_extend (spi_counts io)) = Inr b'"
    "append_ready (flush_samples b' oid)" by blast
  with assms show ?thesis
    by (auto simp: ads1256_read_adc_def Let_def split: option.splits)
qed

subsection \<open>Runs keep the buffer ready for an append\<close>

lemma sensor_bulk_reset_ready: "4 \<le> ARRAY_SIZE b \<Longrightarrow> append_ready (sensor_bulk_reset b)"
  by (simp add: sensor_bulk_reset_def append_ready_def ARRAY_SIZE_def BYTES_PER_SAMPLE_def)

lemma append_ready_size: "append_ready b \<Longrightarrow> 4 \<le> ARRAY_SIZE b"
  by (simp add: append_ready_def BYTES_PER_SAMPLE_def)

lemma timer_fires_sb:
  "sb (timer_fires hx71x_event hx) = sb hx"
  "sb (timer_fires ads1220_event a) = sb a"
  "sb (timer_fires ads1256_event b) = sb b"
  by (simp_all add: timer_fires_def hx71x_event_def ads1220_event_def ads1256_event_def
      set_flag_def)

lemma command_query_ready:
  "append_ready (sb hx) \<Longrightarrow> append_ready (sb (command_query_hx71x args1 now hx))"
  "append_ready (sb a) \<Longrightarrow> append_ready (sb (command_query_ads1220 args1 now a))"
  "append_ready (sb b) \<Longrightarrow> append_ready (sb (command_query_ads1256 args1 now b))"
  by (simp_all add: command_query_hx71x_def command_query_ads1220_def command_query_ads1256_def
      Let_def sensor_bulk_reset_ready append_ready_size)

lemma hx71x_step_ready:
  assumes "append_ready (sb hx)"
  shows "\<exists>hx'. hx71x_step MAX_READ_TIME oid hx e = Inr hx' \<and> append_ready (sb hx')"
  using assms hx71x_read_adc_ready [OF assms, of MAX_READ_TIME _ oid]
  by (cases e) (auto simp: hx71x_step_def hx71x_capture_task_def timer_fires_sb command_query_ready)

lemma ads1220_step_ready:
  assumes "append_ready (sb a)"
  shows "\<exists>a'. ads1220_step MAX_SPI_READ_TIME oid a e = Inr a' \<and> append_ready (sb a')"
  using assms ads1220_read_adc_ready [OF assms, of MAX_SPI_READ_TIME _ oid]
  by (cases e) (auto simp: ads1220_step_def ads1220_capture_task_def timer_fires_sb command_query_ready)

lemma ads1256_step_ready:
  assumes "append_ready (sb b)"
  shows "(\<exists>b'. ads1256_step MAX_SPI_READ_TIME oid b e = Inr b' \<and> append_ready (sb b'))
       \<or> (\<exists>m. ads1256_step MAX_SPI_READ_TIME oid b e = Inl (Shutdown m))"
  using assms ads1256_read_adc_ready [OF assms, of MAX_SPI_READ_TIME _ oid]
  by (cases e) (auto simp: ads1256_step_def ads1256_capture_task_def timer_fires_sb command_query_ready)

lemma hx71x_run_ready:
  "append_ready (sb hx) \<Longrightarrow>
     \<exists>hx'. run (hx71x_step MAX_READ_TIME oid) hx es = Inr hx' \<and> append_ready (sb hx')"
proof (induction es arbitrary: hx)
  case Nil
  then show ?case by simp
next
  case (Cons e es)
  from hx71x_step_ready [OF Cons.prems, of MAX_READ_TIME oid e] obtain h where
    h: "hx71x_step MAX_READ_TIME oid hx e = Inr h" "append_ready (sb h)" by blast
  with Cons.IH [OF h(2)] show ?case by simp
qed

lemma ads1220_run_ready:
  "append_ready (sb a) \<Longrightarrow>
     \<exists>a'. run (ads1220_step MAX_SPI_READ_TIME oid) a es = Inr a' \<and> append_ready (sb a')"
proof (induction es arbitrary: a)
  case Nil
  then show ?case by simp
next
  case (Cons e es)
  from ads1220_step_ready [OF Cons.prems, of MAX_SPI_READ_TIME oid e] obtain h where
    h: "ads1220_step MAX_SPI_READ_TIME oid a e = Inr h" "append_ready (sb h)" by blast
  with Cons.IH [OF h(2)] show ?case by simp
qed

lemma ads1256_run_ready:
  "append_ready (sb b) \<Longrightarrow>
     (\<exists>b'. run (ads1256_step MAX_SPI_READ_TIME oid) b es = Inr b' \<and> append_ready (sb b'))
     \<or> (\<exists>m. run (ads1256_step MAX_SPI_READ_TIME oid) b es = Inl (Shutdown m))"
proof (induction es arbitrary: b)
  case Nil
  then show ?case by simp
next
  case (Cons e es)
  from ads1256_step_ready [OF Cons.prems, of MAX_SPI_READ_TIME oid e] show ?case
  proof
    assume "\<exists>b'. ads1256_step MAX_SPI_READ_TIME oid b e = Inr b' \<and> append_ready (sb b')"
    then obtain h where
      h: "ads1256_step MAX_SPI_READ_TIME oid b e = Inr h" "append_ready (sb h)" by blast
    with Cons.IH [OF h(2)] show ?thesis by simp
  next
    assume "\<exists>m. ads1256_step MAX_SPI_READ_TIME oid b e = Inl (Shutdown m)"
    then show ?thesis by auto
  qed
qed

subsection \<open>What a poll leaves behind\<close>

lemma reschedule_timer_fields:
  "timer (reschedule_timer now s) = \<lparr>waketime = now + rest_ticks s, scheduled = True\<rparr>"
  "rest_ticks (reschedule_timer now s) = rest_ticks s"
  "pending_flag (reschedule_timer now p) = pending_flag p"
  by (simp_all add: reschedule_timer_def sched_add_timer_def)

lemma ads1256_reschedule_timer_fields:
  "timer (ads1256_reschedule_timer now s) = \<lparr>waketime = now + rest_ticks s, scheduled = True\<rparr>"
  "rest_ticks (ads1256_reschedule_timer now s) = rest_ticks s"
  "flags (ads1256_reschedule_timer now s) = flags s OR FLAG_PENDING"
  by (simp_all add: ads1256_reschedule_timer_def set_flag_def sched_add_timer_def Let_def)

lemma FLAG_PENDING_nonzero: "FLAG_PENDING \<noteq> 0"
  by (simp add: FLAG_PENDING_def)

lemma flag_pending_set: "(f OR FLAG_PENDING) AND FLAG_PENDING \<noteq> 0" for f :: "8 word"
proof -
  have "bit ((f OR FLAG_PENDING) AND FLAG_PENDING) 0"
    by (simp add: FLAG_PENDING_def bit_simps)
  then show ?thesis by auto
qed

lemma hx71x_read_adc_outcome:
  assumes "append_ready (sb hx)"
  shows "\<exists>hx'. hx71x_read_adc MAX_READ_TIME io hx oid = Inr hx'
     \<and> rest_ticks hx' = rest_ticks hx
     \<and> timer hx' =
         (if \<not> dout_check io \<and> (\<not> dout_after io \<or> MAX_READ_TIME \<le> end_time io - start_time io)
          then timer hx
          else \<lparr>waketime = resched_time io + rest_ticks hx, scheduled = True\<rparr>)
     \<and> pending_flag hx' = (if dout_check io then pending_flag hx else 0)"
proof -
  from assms have r: "append_ready (sb (hx\<lparr>sclk := False\<rparr>))" by simp
  have n: "\<not> out_of_range (decode_counts (snd (hx71x_shift_in (dout_bits io) (hx, 0))))"
    using decode_range [OF hx71x_shift_in_24bit, of "dout_bits io" hx]
    by (simp add: out_of_range_def)
  show ?thesis
    using send_error_ready [OF r, of oid ERROR_READY_AFTER_READ]
      send_error_ready [OF r, of oid hx71x_ERROR_READ_TOO_LONG]
      store_counts_sample [OF r n, of hx71x_ERROR_OUT_OF_RANGE "resched_time io" oid]
    by (auto simp: hx71x_read_adc_unfold reschedule_timer_fields)
qed

lemma ads1220_read_adc_outcome:
  assumes "append_ready (sb s)"
  shows "\<exists>s'. ads1220_read_adc MAX_SPI_READ_TIME io s oid = Inr s'
     \<and> rest_ticks s' = rest_ticks s
     \<and> timer s' =
         (if \<not> data_ready io \<and> MAX_SPI_READ_TIME \<le> spi_end_time io - spi_start_time io
          then timer s
          else \<lparr>waketime = spi_resched_time io + rest_ticks s, scheduled = True\<rparr>)
     \<and> pending_flag s' = (if data_ready io then pending_flag s else 0)"
proof -
  have n: "\<not> out_of_range (decode_counts (spi_counts io))"
    using decode_range [OF spi_counts_24bit, of io] by (simp add: out_of_range_def)
  show ?thesis
    using send_error_ready [OF assms, of oid ads1220_ERROR_READ_TOO_LONG]
      store_counts_sample [OF assms n, of ads1220_ERROR_OUT_OF_RANGE "spi_resched_time io" oid]
    by (auto simp: ads1220_read_adc_unfold reschedule_timer_fields)
qed

lemma ads1256_read_adc_outcome:
  assumes "ads1256_read_adc MAX_SPI_READ_TIME io s oid = Inr s'"
  shows "timer s' = \<lparr>waketime = spi_resched_time io + rest_ticks s, scheduled = True\<rparr>
     \<and> rest_ticks s' = rest_ticks s \<and> flags s' AND FLAG_PENDING \<noteq> 0"
  using assms
  by (auto simp: ads1256_read_adc_def Let_def ads1256_reschedule_timer_fields flag_pending_set
      FLAG_PENDING_nonzero
      split: if_splits sum.splits option.splits)

lemma ads1256_sign_extend_sint:
  fixes v :: "32 word"
  assumes "v \<le> 0xFFFFFF"
  shows "sint (ads1256_sign_extend v) = (if v < 0x800000 then uint v else uint v - 0x1000000)"
proof (cases "v < 0x800000")
  case True
  then have "\<not> 0x800000 \<le> v" by simp
  with True assms show ?thesis by (simp add: sign_extend_if bit23_iff sint_low)
next
  case False
  then have "0x800000 \<le> v" by simp
  with assms False show ?thesis by (simp add: sign_extend_if bit23_iff sint_high)
qed

lemma ads1256_counts_below: "sint (ads1256_sign_extend (spi_counts io)) < 0x800000"
proof -
  have "uint (spi_counts io) \<le> 0xFFFFFF" using spi_counts_24bit [of io] by (simp add: word_le_def)
  moreover have "spi_counts io < 0x800000 \<Longrightarrow> uint (spi_counts io) < 0x800000"
    by (simp add: word_less_def)
  ultimately show ?thesis
    by (simp add: ads1256_sign_extend_sint [OF spi_counts_24bit])
qed

section \<open>The claims\<close>

text \<open>
  C9. For every 24-bit raw word \<open>v\<close>, the ADS1256 sign extension
  \<open>(v ^ 0x800000) - 0x800000\<close> is the standard two's-complement sign extension:
  \<open>v\<close> below \<open>0x800000\<close> and \<open>v | 0xFF000000\<close> from there on, read as a signed
  32-bit value. It also agrees with the decoding of the HX71x and ADS1220 drivers
  everywhere but at the midpoint, which those map to zero.
\<close>

theorem ads1256_sign_extend_equiv:
  fixes v :: "32 word"
  assumes "v \<le> 0xFFFFFF"
  shows "ads1256_sign_extend v = sign_extend24 v
       \<and> sint (ads1256_sign_extend v) = (if v < 0x800000 then uint v else uint v - 0x1000000)
       \<and> (v \<noteq> 0x800000 \<longrightarrow> ads1256_sign_extend v = decode_counts v)"
proof (cases "v < 0x800000")
  case True
  with assms show ?thesis
    by (simp add: sign_extend_if bit23_iff sign_extend24_def sint_low decode_cases)
next
  case False
  then have "0x800000 \<le> v" by simp
  with assms False show ?thesis
    by (simp add: sign_extend_if bit23_iff sign_extend24_def or_high_byte sint_high decode_cases)
qed

theorem ads1256_sign_extend_equiv_witness:
  "(0xFFFFFF :: 32 word) \<le> 0xFFFFFF
   \<and> ads1256_sign_extend 0xFFFFFF = sign_extend24 0xFFFFFF
   \<and> sint (ads1256_sign_extend 0xFFFFFF) = - 1
   \<and> ads1256_sign_extend 0xFFFFFF = decode_counts 0xFFFFFF"
  using ads1256_sign_extend_equiv [of "0xFFFFFF"]
  by (simp add: sign_extend24_def decode_counts_def)

text \<open>
  C10. For every 24-bit raw value the count decoded by the HX71x and ADS1220 rules lies
  in \<open>[-0x7FFFFF, 0x7FFFFF]\<close>. Hence it is never the error sentinel \<open>0x80000000\<close>,
  and the out-of-range test that follows the decoding is false for whatever the 24 clocked
  bits of the HX71x or the three bytes of the ADS1220 are: the out-of-range branch is
  not reachable, and what follows the decoding is always the append.
\<close>

theorem decoded_counts_within_range:
  fixes v :: "32 word"
  shows "(v \<le> 0xFFFFFF \<longrightarrow>
            - 0x7FFFFF \<le> sint (decode_counts v) \<and> sint (decode_counts v) \<le> 0x7FFFFF
            \<and> decode_counts v \<noteq> SAMPLE_ERROR \<and> \<not> out_of_range (decode_counts v))
       \<and> \<not> out_of_range (decode_counts (snd (hx71x_shift_in dout (hx, 0))))
       \<and> decode_counts (snd (hx71x_shift_in dout (hx, 0))) \<noteq> SAMPLE_ERROR
       \<and> \<not> out_of_range (decode_counts (spi_counts io))
       \<and> decode_counts (spi_counts io) \<noteq> SAMPLE_ERROR
       \<and> (v \<le> 0xFFFFFF \<longrightarrow>
            store_counts E now s oid (decode_counts v) =
              (case add_sample (sb s) (decode_counts v) of
                 Inl e \<Rightarrow> Inl e
               | Inr b \<Rightarrow>
                   Inr (reschedule_timer now (s\<lparr>sb := flush_samples b oid, pending_flag := 0\<rparr>))))"
proof -
  have sc: "v \<le> 0xFFFFFF \<longrightarrow>
            store_counts E now s oid (decode_counts v) =
              (case add_sample (sb s) (decode_counts v) of
                 Inl e \<Rightarrow> Inl e
               | Inr b \<Rightarrow>
                   Inr (reschedule_timer now (s\<lparr>sb := flush_samples b oid, pending_flag := 0\<rparr>)))"
    using store_counts_decoded [of v E now s oid] by blast
  have r: "- 0x7FFFFF \<le> sint (decode_counts w) \<and> sint (decode_counts w) \<le> 0x7FFFFF
            \<and> decode_counts w \<noteq> SAMPLE_ERROR \<and> \<not> out_of_range (decode_counts w)"
    if "w \<le> 0xFFFFFF" for w :: "32 word"
    using decode_range [OF that] decode_not_sentinel [OF that] by (simp add: out_of_range_def)
  from sc r [of v] r [OF hx71x_shift_in_24bit, of dout hx] r [OF spi_counts_24bit, of io]
  show ?thesis by blast
qed

theorem decoded_counts_within_range_witness:
  "(0x800001 :: 32 word) \<le> 0xFFFFFF
     \<and> sint (decode_counts 0x800001) = - 0x7FFFFF
     \<and> decode_counts 0x800001 \<noteq> SAMPLE_ERROR \<and> \<not> out_of_range (decode_counts 0x800001)"
proof -
  have h: "(0x800001 :: 32 word) \<le> 0xFFFFFF" by simp
  have "sint (decode_counts 0x800001) = - 0x7FFFFF" by (simp add: decode_counts_def)
  with h decoded_counts_within_range [of "0x800001"] show ?thesis by blast
qed

text \<open>
  C3. For every 24-bit raw value \<open>v\<close> read by the HX71x and ADS1220 decoders:
  \<open>0x800000\<close> decodes to 0, a value up to \<open>0x7FFFFF\<close> to itself, a value from
  \<open>0x800001\<close> to \<open>0xFFFFFF\<close> to \<open>v | 0xFF000000\<close>, the negative number
  \<open>v - 0x1000000\<close>; and a count outside \<open>[-0x7FFFFF, 0x7FFFFF]\<close> reaching the range
  check is reported as an out-of-range error: the record sent holds the sentinel, not the
  count. The last two parts say that both drivers hand the decoded reading of a timely
  read to that check.
\<close>

theorem decode_counts_rules:
  fixes v c :: "32 word"
  shows "(v = 0x800000 \<longrightarrow> decode_counts v = 0)
       \<and> (v \<le> 0x7FFFFF \<longrightarrow> decode_counts v = v \<and> sint (decode_counts v) = uint v)
       \<and> (0x800001 \<le> v \<and> v \<le> 0xFFFFFF \<longrightarrow>
            decode_counts v = v OR 0xFF000000 \<and> sint (decode_counts v) = uint v - 0x1000000)
       \<and> (out_of_range c \<longrightarrow> store_counts E now s oid c = send_error s oid E)
       \<and> (out_of_range c \<and> append_ready (sb s) \<longrightarrow>
            (\<exists>b s'. add_sample (sb s) SAMPLE_ERROR = Inr b
               \<and> store_counts E now s oid c = Inr s'
               \<and> sb s' = sensor_bulk_report (b\<lparr>possible_overflows := unat E\<rparr>) oid
               \<and> host_reports (sb s') = host_reports (sb s) @
                    [(oid, take (data_count (sb s)) (data (sb s)) @ [0, 0, 0, 0x80])]))
       \<and> (\<not> dout_check io \<and> dout_after io \<and> end_time io - start_time io < MAX_READ_TIME \<longrightarrow>
            hx71x_read_adc MAX_READ_TIME io hx oid =
              store_counts hx71x_ERROR_OUT_OF_RANGE (resched_time io) (hx\<lparr>sclk := False\<rparr>) oid
                (decode_counts (snd (hx71x_shift_in (dout_bits io) (hx, 0)))))
       \<and> (\<not> data_ready sio \<and> spi_end_time sio - spi_start_time sio < MAX_SPI_READ_TIME \<longrightarrow>
            ads1220_read_adc MAX_SPI_READ_TIME sio a oid =
              store_counts ads1220_ERROR_OUT_OF_RANGE (spi_resched_time sio) a oid
                (decode_counts (spi_counts sio)))"
proof -
  have mid: "v = 0x800000 \<longrightarrow> decode_counts v = 0" by (simp add: decode_counts_def)
  have low: "v \<le> 0x7FFFFF \<longrightarrow> decode_counts v = v \<and> sint (decode_counts v) = uint v"
  proof
    assume "v \<le> 0x7FFFFF"
    then have "v < 0x800000" "v \<le> 0xFFFFFF" by (simp_all add: word_le_def word_less_def)
    then show "decode_counts v = v \<and> sint (decode_counts v) = uint v"
      by (simp add: decode_cases sint_low)
  qed
  have high: "0x800001 \<le> v \<and> v \<le> 0xFFFFFF \<longrightarrow>
            decode_counts v = v OR 0xFF000000 \<and> sint (decode_counts v) = uint v - 0x1000000"
  proof
    assume a: "0x800001 \<le> v \<and> v \<le> 0xFFFFFF"
    then have "0x800000 \<le> v" "v \<noteq> 0x800000" "\<not> v < 0x800000" "v \<le> 0xFFFFFF"
      by (auto simp: word_le_def word_less_def)
    then show "decode_counts v = v OR 0xFF000000 \<and> sint (decode_counts v) = uint v - 0x1000000"
      by (simp add: decode_cases or_high_byte sint_high)
  qed
  have err: "out_of_range c \<longrightarrow> store_counts E now s oid c = send_error s oid E"
    by (simp add: store_counts_def)
  have rec: "out_of_range c \<and> append_ready (sb s) \<longrightarrow>
            (\<exists>b s'. add_sample (sb s) SAMPLE_ERROR = Inr b
               \<and> store_counts E now s oid c = Inr s'
               \<and> sb s' = sensor_bulk_report (b\<lparr>possible_overflows := unat E\<rparr>) oid
               \<and> host_reports (sb s') = host_reports (sb s) @
                    [(oid, take (data_count (sb s)) (data (sb s)) @ [0, 0, 0, 0x80])])"
  proof
    assume a: "out_of_range c \<and> append_ready (sb s)"
    then have "data_count (sb s) + 4 \<le> ARRAY_SIZE (sb s)"
      by (simp add: append_ready_def BYTES_PER_SAMPLE_def)
    from send_error_result [OF this, of oid E] a
    show "\<exists>b s'. add_sample (sb s) SAMPLE_ERROR = Inr b
               \<and> store_counts E now s oid c = Inr s'
               \<and> sb s' = sensor_bulk_report (b\<lparr>possible_overflows := unat E\<rparr>) oid
               \<and> host_reports (sb s') = host_reports (sb s) @
                    [(oid, take (data_count (sb s)) (data (sb s)) @ [0, 0, 0, 0x80])]"
      by (auto simp: store_counts_def)
  qed
  have hx: "\<not> dout_check io \<and> dout_after io \<and> end_time io - start_time io < MAX_READ_TIME \<longrightarrow>
            hx71x_read_adc MAX_READ_TIME io hx oid =
              store_counts hx71x_ERROR_OUT_OF_RANGE (resched_time io) (hx\<lparr>sclk := False\<rparr>) oid
                (decode_counts (snd (hx71x_shift_in (dout_bits io) (hx, 0))))"
    by (auto simp: hx71x_read_adc_unfold)
  have ads: "\<not> data_ready sio \<and> spi_end_time sio - spi_start_time sio < MAX_SPI_READ_TIME \<longrightarrow>
            ads1220_read_adc MAX_SPI_READ_TIME sio a oid =
              store_counts ads1220_ERROR_OUT_OF_RANGE (spi_resched_time sio) a oid
                (decode_counts (spi_counts sio))"
    by (auto simp: ads1220_read_adc_unfold)
  from mid low high err rec hx ads show ?thesis by blast
qed

theorem decode_counts_rules_witness:
  "decode_counts 0x800000 = 0
   \<and> (0x7FFFFF :: 32 word) \<le> 0x7FFFFF \<and> decode_counts 0x7FFFFF = 0x7FFFFF
   \<and> (0x800001 :: 32 word) \<le> 0x800001 \<and> (0x800001 :: 32 word) \<le> 0xFFFFFF
   \<and> decode_counts 0x800001 = 0x800001 OR 0xFF000000
   \<and> sint (decode_counts 0x800001) = - 0x7FFFFF
   \<and> out_of_range 0x800000 \<and> append_ready (sb example_ads1220)
   \<and> store_counts 2 0 example_ads1220 7 0x800000 = send_error example_ads1220 7 2
   \<and> (\<exists>s'. store_counts 2 0 example_ads1220 7 0x800000 = Inr s'
         \<and> host_reports (sb s') = [(7, [0, 0, 0, 0x80])])
   \<and> \<not> dout_check hx71x_reading \<and> dout_after hx71x_reading
   \<and> end_time hx71x_reading - start_time hx71x_reading < 600
   \<and> hx71x_read_adc 600 hx71x_reading example_hx71x 7 =
        store_counts hx71x_ERROR_OUT_OF_RANGE (resched_time hx71x_reading)
          (example_hx71x\<lparr>sclk := False\<rparr>) 7
          (decode_counts (snd (hx71x_shift_in (dout_bits hx71x_reading) (example_hx71x, 0))))
   \<and> \<not> data_ready spi_reading \<and> spi_end_time spi_reading - spi_start_time spi_reading < 600
   \<and> ads1220_read_adc 600 spi_reading example_ads1220 7 =
        store_counts ads1220_ERROR_OUT_OF_RANGE (spi_resched_time spi_reading) example_ads1220 7
          (decode_counts (spi_counts spi_reading))"
proof -
  have h1: "(0x7FFFFF :: 32 word) \<le> 0x7FFFFF"
    and h2: "(0x800001 :: 32 word) \<le> 0x800001 \<and> (0x800001 :: 32 word) \<le> 0xFFFFFF"
    and h3: "out_of_range 0x800000"
    by (simp_all add: out_of_range_def)
  have h4: "append_ready (sb example_ads1220)"
    by (simp add: example_ads1220_def example_ready)
  have h5: "\<not> dout_check hx71x_reading \<and> dout_after hx71x_reading
      \<and> end_time hx71x_reading - start_time hx71x_reading < 600"
    by (simp add: hx71x_reading_def)
  have h6: "\<not> data_ready spi_reading \<and> spi_end_time spi_reading - spi_start_time spi_reading < 600"
    by (simp add: spi_reading_def)
  have e: "take (data_count (sb example_ads1220)) (data (sb example_ads1220)) = []"
    "host_reports (sb example_ads1220) = []"
    by (simp_all add: example_ads1220_def example_sb_def)
  note r = decode_counts_rules [where c = "0x800000" and E = 2 and now = 0
      and s = example_ads1220 and oid = 7 and io = hx71x_reading and MAX_READ_TIME = 600
      and hx = example_hx71x and sio = spi_reading and MAX_SPI_READ_TIME = 600
      and a = example_ads1220]
  note r1 = r [where v = "0x800000"]
  note r2 = r [where v = "0x7FFFFF"]
  note r3 = r [where v = "0x800001"]
  have "decode_counts 0x800000 = 0" using r1 by simp
  moreover have "decode_counts 0x7FFFFF = 0x7FFFFF" using r2 h1 by simp
  moreover have "decode_counts 0x800001 = 0x800001 OR 0xFF000000
      \<and> sint (decode_counts 0x800001) = - 0x7FFFFF" using r3 h2 by simp
  moreover have "store_counts 2 0 example_ads1220 7 0x800000 = send_error example_ads1220 7 2"
    using r3 h3 by blast
  moreover have "\<exists>s'. store_counts 2 0 example_ads1220 7 0x800000 = Inr s'
         \<and> host_reports (sb s') = [(7, [0, 0, 0, 0x80])]"
  proof -
    from r3 h3 h4 have "\<exists>s'. store_counts 2 0 example_ads1220 7 0x800000 = Inr s'
         \<and> host_reports (sb s') = host_reports (sb example_ads1220) @
              [(7, take (data_count (sb example_ads1220)) (data (sb example_ads1220)) @
                   [0, 0, 0, 0x80])]"
      by blast
    then show ?thesis by (simp add: e)
  qed
  moreover have "hx71x_read_adc 600 hx71x_reading example_hx71x 7 =
        store_counts hx71x_ERROR_OUT_OF_RANGE (resched_time hx71x_reading)
          (example_hx71x\<lparr>sclk := False\<rparr>) 7
          (decode_counts (snd (hx71x_shift_in (dout_bits hx71x_reading) (example_hx71x, 0))))"
    using r3 h5 by blast
  moreover have "ads1220_read_adc 600 spi_reading example_ads1220 7 =
        store_counts ads1220_ERROR_OUT_OF_RANGE (spi_resched_time spi_reading) example_ads1220 7
          (decode_counts (spi_counts spi_reading))"
    using r3 h6 by blast
  ultimately show ?thesis using h1 h2 h3 h4 h5 h6 by blast
qed

text \<open>
  C5. Whatever the fill level of an append-ready buffer when an error occurs, also with
  room for exactly one more sample (\<open>data_count = capacity - 4\<close>), \<open>send_error\<close>
  appends one sentinel record, stores the error code in the side field and then flushes
  once, without consulting the nearly-full threshold: the buffer handed to the report
  holds the sentinel and the code, the host receives one more report with the bytes
  buffered so far followed by the sentinel, and the fill count is zero.
\<close>

theorem send_error_flushes_once:
  assumes "data_count (sb s) + BYTES_PER_SAMPLE \<le> ARRAY_SIZE (sb s)"
  shows "\<exists>b s'. add_sample (sb s) SAMPLE_ERROR = Inr b
           \<and> send_error s oid error_code = Inr s'
           \<and> sb s' = sensor_bulk_report (b\<lparr>possible_overflows := unat error_code\<rparr>) oid
           \<and> data_count (sb s') = 0
           \<and> host_reports (sb s') = host_reports (sb s) @
                [(oid, take (data_count (sb s)) (data (sb s)) @ [0, 0, 0, 0x80])]
           \<and> pending_flag s' = 0"
proof -
  from assms have "data_count (sb s) + 4 \<le> ARRAY_SIZE (sb s)" by (simp add: BYTES_PER_SAMPLE_def)
  from send_error_result [OF this, of oid error_code] show ?thesis by blast
qed

theorem send_error_flushes_once_witness:
  "data_count (sb (example_ads1220\<lparr>sb := example_sb\<lparr>data_count := 4\<rparr>\<rparr>)) + BYTES_PER_SAMPLE
     = ARRAY_SIZE (sb (example_ads1220\<lparr>sb := example_sb\<lparr>data_count := 4\<rparr>\<rparr>))
   \<and> (\<exists>s'. send_error (example_ads1220\<lparr>sb := example_sb\<lparr>data_count := 4\<rparr>\<rparr>) 7 2 = Inr s'
         \<and> data_count (sb s') = 0
         \<and> host_reports (sb s') = [(7, [0, 0, 0, 0, 0, 0, 0, 0x80])]
         \<and> pending_flag s' = 0)"
proof -
  have h: "data_count (sb (example_ads1220\<lparr>sb := example_sb\<lparr>data_count := 4\<rparr>\<rparr>)) + BYTES_PER_SAMPLE
     = ARRAY_SIZE (sb (example_ads1220\<lparr>sb := example_sb\<lparr>data_count := 4\<rparr>\<rparr>))"
    by (simp add: example_sb_def BYTES_PER_SAMPLE_def ARRAY_SIZE_def)
  then have "data_count (sb (example_ads1220\<lparr>sb := example_sb\<lparr>data_count := 4\<rparr>\<rparr>)) + BYTES_PER_SAMPLE
     \<le> ARRAY_SIZE (sb (example_ads1220\<lparr>sb := example_sb\<lparr>data_count := 4\<rparr>\<rparr>))"
    by simp
  from send_error_flushes_once [OF this, of 7 2] h show ?thesis
    by (auto simp: example_sb_def example_ads1220_def)
qed

text \<open>
  C7. A poll whose measured elapsed time equals the maximum exactly is rejected as a
  timing error: the comparison is \<open>elapsed >= max\<close>. The HX71x measures the time once
  the data pin is found high after the read; HX71x and ADS1220 send an error record with
  their \<open>ERROR_READ_TOO_LONG\<close> code, the ADS1256 shuts down with its timing message.
\<close>

theorem timeout_boundary_inclusive:
  "(\<not> dout_check io \<and> dout_after io \<and> end_time io - start_time io = MAX_READ_TIME \<longrightarrow>
      hx71x_read_adc MAX_READ_TIME io hx oid =
        send_error (hx\<lparr>sclk := False\<rparr>) oid hx71x_ERROR_READ_TOO_LONG)
   \<and> (\<not> data_ready sio \<and> spi_end_time sio - spi_start_time sio = MAX_SPI_READ_TIME \<longrightarrow>
      ads1220_read_adc MAX_SPI_READ_TIME sio a oid = send_error a oid ads1220_ERROR_READ_TOO_LONG
      \<and> ads1256_read_adc MAX_SPI_READ_TIME sio b oid =
          Inl (Shutdown ''ads1256 read timing error, read took too long''))"
  by (simp add: hx71x_read_adc_unfold ads1220_read_adc_unfold ads1256_read_adc_def
      ads1256_is_data_ready_def Let_def)

theorem timeout_boundary_inclusive_witness:
  "\<not> dout_check hx71x_at_limit \<and> dout_after hx71x_at_limit
   \<and> end_time hx71x_at_limit - start_time hx71x_at_limit = 600
   \<and> hx71x_read_adc 600 hx71x_at_limit example_hx71x 7 =
        send_error (example_hx71x\<lparr>sclk := False\<rparr>) 7 hx71x_ERROR_READ_TOO_LONG
   \<and> \<not> data_ready spi_at_limit \<and> spi_end_time spi_at_limit - spi_start_time spi_at_limit = 600
   \<and> ads1220_read_adc 600 spi_at_limit example_ads1220 7 =
        send_error example_ads1220 7 ads1220_ERROR_READ_TOO_LONG
   \<and> ads1256_read_adc 600 spi_at_limit example_ads1256 7 =
        Inl (Shutdown ''ads1256 read timing error, read took too long'')"
proof -
  have h1: "\<not> dout_check hx71x_at_limit \<and> dout_after hx71x_at_limit
     \<and> end_time hx71x_at_limit - start_time hx71x_at_limit = 600"
    by (simp add: hx71x_at_limit_def)
  have h2: "\<not> data_ready spi_at_limit \<and> spi_end_time spi_at_limit - spi_start_time spi_at_limit = 600"
    by (simp add: spi_at_limit_def)
  from timeout_boundary_inclusive [where io = hx71x_at_limit and MAX_READ_TIME = 600
      and hx = example_hx71x and oid = 7 and sio = spi_at_limit and MAX_SPI_READ_TIME = 600
      and a = example_ads1220 and b = example_ads1256] h1 h2
  show ?thesis by blast
qed

text \<open>
  C8. The stop command (\<open>rest_ticks = 0\<close>) leaves the sensor disarmed: the timer not
  scheduled, the pending flag clear, \<open>rest_ticks\<close> zero (and the HX71x powered down);
  a second stop command leaves that state as it is.
\<close>

theorem stop_twice_idempotent:
  "(let hx1 = command_query_hx71x 0 now hx
    in \<not> scheduled (timer hx1) \<and> pending_flag hx1 = 0 \<and> rest_ticks hx1 = 0 \<and> sclk hx1
       \<and> command_query_hx71x 0 now' hx1 = hx1)
   \<and> (let a1 = command_query_ads1220 0 now a
    in \<not> scheduled (timer a1) \<and> pending_flag a1 = 0 \<and> rest_ticks a1 = 0
       \<and> command_query_ads1220 0 now' a1 = a1)
   \<and> (let b1 = command_query_ads1256 0 now b
    in \<not> scheduled (timer b1) \<and> flags b1 AND FLAG_PENDING = 0 \<and> rest_ticks b1 = 0
       \<and> command_query_ads1256 0 now' b1 = b1)"
  by (simp add: command_query_hx71x_def command_query_ads1220_def command_query_ads1256_def
      sched_del_timer_def Let_def)

text \<open>
  C6. Along every sequence of timer events, polls and query commands, the buffer of a
  sensor keeps \<open>data_count\<close> a multiple of four and at most the capacity, and is left
  ready for an append after each step: an append to a ready buffer stays within the
  array, the flush that follows resets \<open>data_count\<close> to zero exactly when one more
  sample would not fit, and so no run ends in a store beyond the array. HX71x and
  ADS1220 runs always return; an ADS1256 run returns or ends in a shutdown.
\<close>

theorem buffer_stays_append_ready:
  "(append_ready buf \<longrightarrow>
      4 dvd data_count buf \<and> data_count buf \<le> ARRAY_SIZE buf
      \<and> (\<exists>buf'. add_sample buf counts = Inr buf' \<and> 4 dvd data_count buf'
            \<and> data_count buf' \<le> ARRAY_SIZE buf'
            \<and> append_ready (flush_samples buf' oid)))
   \<and> (ARRAY_SIZE buf < data_count buf + BYTES_PER_SAMPLE \<longrightarrow>
        flush_samples buf oid = sensor_bulk_report buf oid
        \<and> data_count (flush_samples buf oid) = 0)
   \<and> (append_ready (sb hx) \<longrightarrow>
        (\<exists>hx'. run (hx71x_step MAX_READ_TIME oid) hx es = Inr hx' \<and> append_ready (sb hx')))
   \<and> (append_ready (sb a) \<longrightarrow>
        (\<exists>a'. run (ads1220_step MAX_SPI_READ_TIME oid) a ss = Inr a' \<and> append_ready (sb a')))
   \<and> (append_ready (sb b) \<longrightarrow>
        (\<exists>b'. run (ads1256_step MAX_SPI_READ_TIME oid) b ss = Inr b' \<and> append_ready (sb b'))
        \<or> (\<exists>m. run (ads1256_step MAX_SPI_READ_TIME oid) b ss = Inl (Shutdown m)))"
proof -
  have 1: "append_ready buf \<longrightarrow>
      4 dvd data_count buf \<and> data_count buf \<le> ARRAY_SIZE buf
      \<and> (\<exists>buf'. add_sample buf counts = Inr buf' \<and> 4 dvd data_count buf'
            \<and> data_count buf' \<le> ARRAY_SIZE buf'
            \<and> append_ready (flush_samples buf' oid))"
    using add_sample_ready [of buf counts oid]
    by (auto simp: append_ready_def BYTES_PER_SAMPLE_def)
  have 2: "ARRAY_SIZE buf < data_count buf + BYTES_PER_SAMPLE \<longrightarrow>
        flush_samples buf oid = sensor_bulk_report buf oid
        \<and> data_count (flush_samples buf oid) = 0"
    by (simp add: flush_samples_def sensor_bulk_report_def)
  from 1 2 hx71x_run_ready [of hx MAX_READ_TIME oid es]
    ads1220_run_ready [of a MAX_SPI_READ_TIME oid ss]
    ads1256_run_ready [of b MAX_SPI_READ_TIME oid ss]
  show ?thesis by blast
qed

theorem buffer_stays_append_ready_witness:
  "append_ready (example_sb\<lparr>data_count := 4\<rparr>)
   \<and> (\<exists>buf'. add_sample (example_sb\<lparr>data_count := 4\<rparr>) 5 = Inr buf'
         \<and> 4 dvd data_count buf' \<and> data_count buf' \<le> ARRAY_SIZE buf'
         \<and> append_ready (flush_samples buf' 7))
   \<and> ARRAY_SIZE (example_sb\<lparr>data_count := 8\<rparr>)
         < data_count (example_sb\<lparr>data_count := 8\<rparr>) + BYTES_PER_SAMPLE
   \<and> data_count (flush_samples (example_sb\<lparr>data_count := 8\<rparr>) 7) = 0
   \<and> append_ready (sb example_hx71x)
   \<and> (\<exists>hx'. run (hx71x_step 600 7) example_hx71x
          [Query 1000 0, Timer_Fires, Task_Wakes hx71x_reading, Timer_Fires,
           Task_Wakes hx71x_reading, Timer_Fires, Task_Wakes hx71x_reading] = Inr hx'
         \<and> append_ready (sb hx'))
   \<and> append_ready (sb example_ads1220)
   \<and> (\<exists>a'. run (ads1220_step 600 7) example_ads1220
          [Query 1000 0, Timer_Fires, Task_Wakes spi_reading, Timer_Fires,
           Task_Wakes spi_at_limit] = Inr a'
         \<and> append_ready (sb a'))
   \<and> append_ready (sb example_ads1256)
   \<and> (\<exists>b'. run (ads1256_step 600 7) example_ads1256
          [Query 1000 0, Timer_Fires, Task_Wakes spi_reading, Timer_Fires,
           Task_Wakes spi_midpoint] = Inr b'
         \<and> append_ready (sb b'))"
proof -
  have h1: "append_ready (example_sb\<lparr>data_count := 4\<rparr>)"
    by (simp add: append_ready_def example_sb_def ARRAY_SIZE_def BYTES_PER_SAMPLE_def)
  have h2: "ARRAY_SIZE (example_sb\<lparr>data_count := 8\<rparr>)
         < data_count (example_sb\<lparr>data_count := 8\<rparr>) + BYTES_PER_SAMPLE"
    by (simp add: example_sb_def ARRAY_SIZE_def BYTES_PER_SAMPLE_def)
  have h3: "append_ready (sb example_hx71x)" "append_ready (sb example_ads1220)"
    "append_ready (sb example_ads1256)"
    by (simp_all add: example_hx71x_def example_ads1220_def example_ads1256_def example_ready)
  have "\<not> isl (run (ads1256_step 600 7) example_ads1256
          [Query 1000 0, Timer_Fires, Task_Wakes spi_reading, Timer_Fires,
           Task_Wakes spi_midpoint])"
    by code_simp
  then have n: "\<not> (\<exists>m. run (ads1256_step 600 7) example_ads1256
          [Query 1000 0, Timer_Fires, Task_Wakes spi_reading, Timer_Fires,
           Task_Wakes spi_midpoint] = Inl (Shutdown m))"
    by auto
  note r = buffer_stays_append_ready [where counts = 5 and oid = 7
      and hx = example_hx71x and MAX_READ_TIME = 600
      and es = "[Query 1000 0, Timer_Fires, Task_Wakes hx71x_reading, Timer_Fires,
           Task_Wakes hx71x_reading, Timer_Fires, Task_Wakes hx71x_reading]"
      and a = example_ads1220 and MAX_SPI_READ_TIME = 600
      and ss = "[Query 1000 0, Timer_Fires, Task_Wakes spi_reading, Timer_Fires,
           Task_Wakes spi_at_limit]"
      and b = example_ads1256]
  note r1 = r [where buf = "example_sb\<lparr>data_count := 4\<rparr>"]
  note r2 = r [where buf = "example_sb\<lparr>data_count := 8\<rparr>"]
  note r3 = buffer_stays_append_ready [where b = example_ads1256 and MAX_SPI_READ_TIME = 600
      and oid = 7
      and ss = "[Query 1000 0, Timer_Fires, Task_Wakes spi_reading, Timer_Fires,
           Task_Wakes spi_midpoint]"]
  from r1 h1 h3 have a: "(\<exists>buf'. add_sample (example_sb\<lparr>data_count := 4\<rparr>) 5 = Inr buf'
         \<and> 4 dvd data_count buf' \<and> data_count buf' \<le> ARRAY_SIZE buf'
         \<and> append_ready (flush_samples buf' 7))
      \<and> (\<exists>hx'. run (hx71x_step 600 7) example_hx71x
          [Query 1000 0, Timer_Fires, Task_Wakes hx71x_reading, Timer_Fires,
           Task_Wakes hx71x_reading, Timer_Fires, Task_Wakes hx71x_reading] = Inr hx'
         \<and> append_ready (sb hx'))
      \<and> (\<exists>a'. run (ads1220_step 600 7) example_ads1220
          [Query 1000 0, Timer_Fires, Task_Wakes spi_reading, Timer_Fires,
           Task_Wakes spi_at_limit] = Inr a'
         \<and> append_ready (sb a'))"
    by blast
  from r2 h2 have b: "data_count (flush_samples (example_sb\<lparr>data_count := 8\<rparr>) 7) = 0"
    by blast
  from r3 h3 n have c: "\<exists>b'. run (ads1256_step 600 7) example_ads1256
          [Query 1000 0, Timer_Fires, Task_Wakes spi_reading, Timer_Fires,
           Task_Wakes spi_midpoint] = Inr b'
         \<and> append_ready (sb b')"
    by blast
  from a b c h1 h2 h3 show ?thesis by blast
qed

text \<open>
  C1. For a poll the background task makes on a sensor with its pending flag
  set: if the chip is not ready, or the poll produces a sample, the timer is armed again
  for the time of re-arming plus \<open>rest_ticks\<close> when the driver returns. If the poll ends
  in an error record (HX71x: data pin low after the read, or the read too long; ADS1220:
  the transfer too long), \<open>send_error\<close> returns without touching the timer, which is
  left as the poll found it. The ADS1256 driver re-arms whenever it returns, and
  otherwise shuts the firmware down.
\<close>

theorem poll_rearms_unless_error:
  "(pending_flag hx \<noteq> 0 \<and> append_ready (sb hx) \<longrightarrow>
      (\<exists>hx'. hx71x_capture_task MAX_READ_TIME io hx oid = Inr hx'
         \<and> rest_ticks hx' = rest_ticks hx
         \<and> timer hx' =
             (if \<not> dout_check io
                 \<and> (\<not> dout_after io \<or> MAX_READ_TIME \<le> end_time io - start_time io)
              then timer hx
              else \<lparr>waketime = resched_time io + rest_ticks hx, scheduled = True\<rparr>)))
   \<and> (pending_flag a \<noteq> 0 \<and> append_ready (sb a) \<longrightarrow>
      (\<exists>a'. ads1220_capture_task MAX_SPI_READ_TIME sio a oid = Inr a'
         \<and> rest_ticks a' = rest_ticks a
         \<and> timer a' =
             (if \<not> data_ready sio \<and> MAX_SPI_READ_TIME \<le> spi_end_time sio - spi_start_time sio
              then timer a
              else \<lparr>waketime = spi_resched_time sio + rest_ticks a, scheduled = True\<rparr>)))
   \<and> (flags b AND FLAG_PENDING \<noteq> 0 \<and> append_ready (sb b) \<longrightarrow>
      (\<exists>b'. ads1256_capture_task MAX_SPI_READ_TIME sio b oid = Inr b'
         \<and> rest_ticks b' = rest_ticks b
         \<and> timer b' = \<lparr>waketime = spi_resched_time sio + rest_ticks b, scheduled = True\<rparr>)
      \<or> (\<exists>m. ads1256_capture_task MAX_SPI_READ_TIME sio b oid = Inl (Shutdown m)))"
proof -
  have 1: "pending_flag hx \<noteq> 0 \<and> append_ready (sb hx) \<longrightarrow>
      (\<exists>hx'. hx71x_capture_task MAX_READ_TIME io hx oid = Inr hx'
         \<and> rest_ticks hx' = rest_ticks hx
         \<and> timer hx' =
             (if \<not> dout_check io
                 \<and> (\<not> dout_after io \<or> MAX_READ_TIME \<le> end_time io - start_time io)
              then timer hx
              else \<lparr>waketime = resched_time io + rest_ticks hx, scheduled = True\<rparr>))"
    using hx71x_read_adc_outcome [of hx MAX_READ_TIME io oid]
    by (auto simp: hx71x_capture_task_def)
  have 2: "pending_flag a \<noteq> 0 \<and> append_ready (sb a) \<longrightarrow>
      (\<exists>a'. ads1220_capture_task MAX_SPI_READ_TIME sio a oid = Inr a'
         \<and> rest_ticks a' = rest_ticks a
         \<and> timer a' =
             (if \<not> data_ready sio \<and> MAX_SPI_READ_TIME \<le> spi_end_time sio - spi_start_time sio
              then timer a
              else \<lparr>waketime = spi_resched_time sio + rest_ticks a, scheduled = True\<rparr>))"
    using ads1220_read_adc_outcome [of a MAX_SPI_READ_TIME sio oid]
    by (auto simp: ads1220_capture_task_def)
  have 3: "flags b AND FLAG_PENDING \<noteq> 0 \<and> append_ready (sb b) \<longrightarrow>
      (\<exists>b'. ads1256_capture_task MAX_SPI_READ_TIME sio b oid = Inr b'
         \<and> rest_ticks b' = rest_ticks b
         \<and> timer b' = \<lparr>waketime = spi_resched_time sio + rest_ticks b, scheduled = True\<rparr>)
      \<or> (\<exists>m. ads1256_capture_task MAX_SPI_READ_TIME sio b oid = Inl (Shutdown m))"
    using ads1256_read_adc_ready [of b MAX_SPI_READ_TIME sio oid]
      ads1256_read_adc_outcome [of MAX_SPI_READ_TIME sio b oid]
    by (auto simp: ads1256_capture_task_def)
  from 1 2 3 show ?thesis by blast
qed

theorem poll_rearms_unless_error_witness:
  "pending_flag (example_hx71x\<lparr>rest_ticks := 1000, pending_flag := 1\<rparr>) \<noteq> 0
   \<and> append_ready (sb (example_hx71x\<lparr>rest_ticks := 1000, pending_flag := 1\<rparr>))
   \<and> (\<exists>hx'. hx71x_capture_task 600 hx71x_reading
                (example_hx71x\<lparr>rest_ticks := 1000, pending_flag := 1\<rparr>) 7 = Inr hx'
         \<and> rest_ticks hx' = 1000 \<and> timer hx' = \<lparr>waketime = 3200, scheduled = True\<rparr>)
   \<and> (\<exists>hx'. hx71x_capture_task 600 hx71x_ready_after
                (example_hx71x\<lparr>rest_ticks := 1000, pending_flag := 1\<rparr>) 7 = Inr hx'
         \<and> rest_ticks hx' = 1000 \<and> timer hx' = \<lparr>waketime = 0, scheduled = False\<rparr>)
   \<and> pending_flag (example_ads1220\<lparr>rest_ticks := 1000, pending_flag := 1\<rparr>) \<noteq> 0
   \<and> append_ready (sb (example_ads1220\<lparr>rest_ticks := 1000, pending_flag := 1\<rparr>))
   \<and> (\<exists>a'. ads1220_capture_task 600 spi_at_limit
                (example_ads1220\<lparr>rest_ticks := 1000, pending_flag := 1\<rparr>) 7 = Inr a'
         \<and> rest_ticks a' = 1000 \<and> timer a' = \<lparr>waketime = 0, scheduled = False\<rparr>)
   \<and> flags (example_ads1256\<lparr>rest_ticks := 1000, flags := 1\<rparr>) AND FLAG_PENDING \<noteq> 0
   \<and> append_ready (sb (example_ads1256\<lparr>rest_ticks := 1000, flags := 1\<rparr>))
   \<and> (\<exists>b'. ads1256_capture_task 600 spi_reading
                (example_ads1256\<lparr>rest_ticks := 1000, flags := 1\<rparr>) 7 = Inr b'
         \<and> rest_ticks b' = 1000 \<and> timer b' = \<lparr>waketime = 3200, scheduled = True\<rparr>)"
proof -
  have h1: "pending_flag (example_hx71x\<lparr>rest_ticks := 1000, pending_flag := 1\<rparr>) \<noteq> 0
      \<and> append_ready (sb (example_hx71x\<lparr>rest_ticks := 1000, pending_flag := 1\<rparr>))"
    by (simp add: example_hx71x_def example_ready)
  have h2: "pending_flag (example_ads1220\<lparr>rest_ticks := 1000, pending_flag := 1\<rparr>) \<noteq> 0
      \<and> append_ready (sb (example_ads1220\<lparr>rest_ticks := 1000, pending_flag := 1\<rparr>))"
    by (simp add: example_ads1220_def example_ready)
  have h3: "flags (example_ads1256\<lparr>rest_ticks := 1000, flags := 1\<rparr>) AND FLAG_PENDING \<noteq> 0
      \<and> append_ready (sb (example_ads1256\<lparr>rest_ticks := 1000, flags := 1\<rparr>))"
    by (simp add: example_ads1256_def example_ready FLAG_PENDING_def)
  have "\<not> isl (ads1256_capture_task 600 spi_reading
                (example_ads1256\<lparr>rest_ticks := 1000, flags := 1\<rparr>) 7)"
    by code_simp
  then have n: "\<not> (\<exists>m. ads1256_capture_task 600 spi_reading
                (example_ads1256\<lparr>rest_ticks := 1000, flags := 1\<rparr>) 7 = Inl (Shutdown m))"
    by auto
  note r = poll_rearms_unless_error [where MAX_READ_TIME = 600 and MAX_SPI_READ_TIME = 600
      and oid = 7 and hx = "example_hx71x\<lparr>rest_ticks := 1000, pending_flag := 1\<rparr>"
      and a = "example_ads1220\<lparr>rest_ticks := 1000, pending_flag := 1\<rparr>"
      and b = "example_ads1256\<lparr>rest_ticks := 1000, flags := 1\<rparr>"]
  note r1 = r [where io = hx71x_reading and sio = spi_at_limit]
  note r2 = r [where io = hx71x_ready_after and sio = spi_reading]
  from r1 h1 have a: "\<exists>hx'. hx71x_capture_task 600 hx71x_reading
                (example_hx71x\<lparr>rest_ticks := 1000, pending_flag := 1\<rparr>) 7 = Inr hx'
         \<and> rest_ticks hx' = 1000 \<and> timer hx' = \<lparr>waketime = 3200, scheduled = True\<rparr>"
    by (simp add: hx71x_reading_def example_hx71x_def)
  from r2 h1 have b: "\<exists>hx'. hx71x_capture_task 600 hx71x_ready_after
                (example_hx71x\<lparr>rest_ticks := 1000, pending_flag := 1\<rparr>) 7 = Inr hx'
         \<and> rest_ticks hx' = 1000 \<and> timer hx' = \<lparr>waketime = 0, scheduled = False\<rparr>"
    by (simp add: hx71x_ready_after_def example_hx71x_def)
  from r1 h2 have c: "\<exists>a'. ads1220_capture_task 600 spi_at_limit
                (example_ads1220\<lparr>rest_ticks := 1000, pending_flag := 1\<rparr>) 7 = Inr a'
         \<and> rest_ticks a' = 1000 \<and> timer a' = \<lparr>waketime = 0, scheduled = False\<rparr>"
    by (simp add: spi_at_limit_def example_ads1220_def)
  from r2 h3 n have d: "\<exists>b'. ads1256_capture_task 600 spi_reading
                (example_ads1256\<lparr>rest_ticks := 1000, flags := 1\<rparr>) 7 = Inr b'
         \<and> rest_ticks b' = 1000 \<and> timer b' = \<lparr>waketime = 3200, scheduled = True\<rparr>"
    by (simp add: spi_reading_def example_ads1256_def)
  from a b c d h1 h2 h3 show ?thesis by blast
qed

text \<open>
  The stronger statement, that the timer is re-armed after an error record as well and a
  running sensor never lacks a timer, does not hold: started with
  \<open>rest_ticks = 1000\<close>, the HX71x timer fires (and is no longer scheduled), the poll
  finds the data pin low after the read and sends an error record; afterwards
  \<open>rest_ticks\<close> is still 1000 and no timer is scheduled.
\<close>

theorem error_poll_leaves_sensor_unscheduled:
  "\<not> isl (run (hx71x_step 600 7) example_hx71x hx71x_error_run)
   \<and> rest_ticks (projr (run (hx71x_step 600 7) example_hx71x hx71x_error_run)) = 1000
   \<and> \<not> scheduled (timer (projr (run (hx71x_step 600 7) example_hx71x hx71x_error_run)))
   \<and> host_reports (sb (projr (run (hx71x_step 600 7) example_hx71x hx71x_error_run)))
       = [(7, [0, 0, 0, 0x80])]"
  by code_simp

text \<open>
  C4. In the HX71x and ADS1220 drivers a poll that ends with a sample or
  with an error record leaves the pending flag clear, and a poll deferred because the chip
  is not ready leaves the flag as it was; there the timer handler is what sets the flag,
  and the query command clears it. In the ADS1256 driver every poll that returns leaves
  the flag set, because re-arming the timer sets it.
\<close>

theorem pending_flag_after_poll:
  "(append_ready (sb hx) \<longrightarrow>
      (\<exists>hx'. hx71x_read_adc MAX_READ_TIME io hx oid = Inr hx'
         \<and> pending_flag hx' = (if dout_check io then pending_flag hx else 0)))
   \<and> (append_ready (sb a) \<longrightarrow>
      (\<exists>a'. ads1220_read_adc MAX_SPI_READ_TIME sio a oid = Inr a'
         \<and> pending_flag a' = (if data_ready sio then pending_flag a else 0)))
   \<and> (append_ready (sb b) \<longrightarrow>
      (\<exists>b'. ads1256_read_adc MAX_SPI_READ_TIME sio b oid = Inr b'
         \<and> flags b' AND FLAG_PENDING \<noteq> 0)
      \<or> (\<exists>m. ads1256_read_adc MAX_SPI_READ_TIME sio b oid = Inl (Shutdown m)))
   \<and> pending_flag (timer_fires hx71x_event hx) = (if scheduled (timer hx) then 1 else pending_flag hx)
   \<and> pending_flag (timer_fires ads1220_event a) = (if scheduled (timer a) then 1 else pending_flag a)
   \<and> pending_flag (command_query_hx71x args1 now hx) = 0
   \<and> pending_flag (command_query_ads1220 args1 now a) = 0"
proof -
  have 1: "append_ready (sb hx) \<longrightarrow>
      (\<exists>hx'. hx71x_read_adc MAX_READ_TIME io hx oid = Inr hx'
         \<and> pending_flag hx' = (if dout_check io then pending_flag hx else 0))"
    using hx71x_read_adc_outcome [of hx MAX_READ_TIME io oid] by blast
  have 2: "append_ready (sb a) \<longrightarrow>
      (\<exists>a'. ads1220_read_adc MAX_SPI_READ_TIME sio a oid = Inr a'
         \<and> pending_flag a' = (if data_ready sio then pending_flag a else 0))"
    using ads1220_read_adc_outcome [of a MAX_SPI_READ_TIME sio oid] by blast
  have 3: "append_ready (sb b) \<longrightarrow>
      (\<exists>b'. ads1256_read_adc MAX_SPI_READ_TIME sio b oid = Inr b'
         \<and> flags b' AND FLAG_PENDING \<noteq> 0)
      \<or> (\<exists>m. ads1256_read_adc MAX_SPI_READ_TIME sio b oid = Inl (Shutdown m))"
    using ads1256_read_adc_ready [of b MAX_SPI_READ_TIME sio oid]
      ads1256_read_adc_outcome [of MAX_SPI_READ_TIME sio b oid]
    by blast
  have 4: "pending_flag (timer_fires hx71x_event hx) = (if scheduled (timer hx) then 1 else pending_flag hx)"
    "pending_flag (timer_fires ads1220_event a) = (if scheduled (timer a) then 1 else pending_flag a)"
    by (simp_all add: timer_fires_def hx71x_event_def ads1220_event_def)
  have 5: "pending_flag (command_query_hx71x args1 now hx) = 0"
    "pending_flag (command_query_ads1220 args1 now a) = 0"
    by (simp_all add: command_query_hx71x_def command_query_ads1220_def Let_def
        reschedule_timer_fields)
  from 1 2 3 4 5 show ?thesis by blast
qed

theorem pending_flag_after_poll_witness:
  "append_ready (sb (example_hx71x\<lparr>rest_ticks := 1000, pending_flag := 1\<rparr>))
   \<and> (\<exists>hx'. hx71x_read_adc 600 hx71x_not_ready
                (example_hx71x\<lparr>rest_ticks := 1000, pending_flag := 1\<rparr>) 7 = Inr hx'
         \<and> pending_flag hx' = 1)
   \<and> (\<exists>hx'. hx71x_read_adc 600 hx71x_reading
                (example_hx71x\<lparr>rest_ticks := 1000, pending_flag := 1\<rparr>) 7 = Inr hx'
         \<and> pending_flag hx' = 0)
   \<and> append_ready (sb (example_ads1220\<lparr>rest_ticks := 1000, pending_flag := 1\<rparr>))
   \<and> (\<exists>a'. ads1220_read_adc 600 spi_not_ready
                (example_ads1220\<lparr>rest_ticks := 1000, pending_flag := 1\<rparr>) 7 = Inr a'
         \<and> pending_flag a' = 1)
   \<and> (\<exists>a'. ads1220_read_adc 600 spi_at_limit
                (example_ads1220\<lparr>rest_ticks := 1000, pending_flag := 1\<rparr>) 7 = Inr a'
         \<and> pending_flag a' = 0)
   \<and> append_ready (sb example_ads1256)
   \<and> (\<exists>b'. ads1256_read_adc 600 spi_reading example_ads1256 7 = Inr b'
         \<and> flags b' AND FLAG_PENDING \<noteq> 0)"
proof -
  have h1: "append_ready (sb (example_hx71x\<lparr>rest_ticks := 1000, pending_flag := 1\<rparr>))"
    by (simp add: example_hx71x_def example_ready)
  have h2: "append_ready (sb (example_ads1220\<lparr>rest_ticks := 1000, pending_flag := 1\<rparr>))"
    by (simp add: example_ads1220_def example_ready)
  have h3: "append_ready (sb example_ads1256)"
    by (simp add: example_ads1256_def example_ready)
  have "\<not> isl (ads1256_read_adc 600 spi_reading example_ads1256 7)"
    by code_simp
  then have n: "\<not> (\<exists>m. ads1256_read_adc 600 spi_reading example_ads1256 7 = Inl (Shutdown m))"
    by auto
  note r = pending_flag_after_poll [where MAX_READ_TIME = 600 and MAX_SPI_READ_TIME = 600
      and oid = 7 and hx = "example_hx71x\<lparr>rest_ticks := 1000, pending_flag := 1\<rparr>"
      and a = "example_ads1220\<lparr>rest_ticks := 1000, pending_flag := 1\<rparr>"
      and b = example_ads1256]
  note r1 = r [where io = hx71x_not_ready and sio = spi_not_ready]
  note r2 = r [where io = hx71x_reading and sio = spi_at_limit]
  note r3 = r [where sio = spi_reading]
  from r1 h1 have a: "\<exists>hx'. hx71x_read_adc 600 hx71x_not_ready
                (example_hx71x\<lparr>rest_ticks := 1000, pending_flag := 1\<rparr>) 7 = Inr hx'
         \<and> pending_flag hx' = 1"
    by (simp add: hx71x_not_ready_def)
  from r2 h1 have b: "\<exists>hx'. hx71x_read_adc 600 hx71x_reading
                (example_hx71x\<lparr>rest_ticks := 1000, pending_flag := 1\<rparr>) 7 = Inr hx'
         \<and> pending_flag hx' = 0"
    by (simp add: hx71x_reading_def)
  from r1 h2 have c: "\<exists>a'. ads1220_read_adc 600 spi_not_ready
                (example_ads1220\<lparr>rest_ticks := 1000, pending_flag := 1\<rparr>) 7 = Inr a'
         \<and> pending_flag a' = 1"
    by (simp add: spi_not_ready_def)
  from r2 h2 have d: "\<exists>a'. ads1220_read_adc 600 spi_at_limit
                (example_ads1220\<lparr>rest_ticks := 1000, pending_flag := 1\<rparr>) 7 = Inr a'
         \<and> pending_flag a' = 0"
    by (simp add: spi_at_limit_def)
  from r3 h3 n have e: "\<exists>b'. ads1256_read_adc 600 spi_reading example_ads1256 7 = Inr b'
         \<and> flags b' AND FLAG_PENDING \<noteq> 0"
    by blast
  from a b c d e h1 h2 h3 show ?thesis by blast
qed

text \<open>
  The stronger statement, that a deferred poll clears the flag too, does not hold: after
  the start command and the timer firing, an HX71x poll that finds the chip not ready
  returns with the flag still set.
\<close>

theorem deferred_poll_keeps_pending:
  "\<not> isl (run (hx71x_step 600 7) example_hx71x hx71x_deferred_run)
   \<and> pending_flag (projr (run (hx71x_step 600 7) example_hx71x hx71x_deferred_run)) = 1
   \<and> data_count (sb (projr (run (hx71x_step 600 7) example_hx71x hx71x_deferred_run))) = 0"
  by code_simp

text \<open>
  C2. In the ADS1256 driver a burst read of the word \<open>0xFFFFFF\<close>, which
  decodes to \<open>-1\<close>, ends in a fatal shutdown and neither a sample nor an error record.
  The raw midpoint \<open>0x800000\<close> does not: it decodes to \<open>-0x800000\<close> and, read in
  time, is appended as a sample. The shutdown guarded by \<open>counts >= 0x800000\<close> is
  reached for no three bytes at all.
\<close>

theorem ads1256_fatal_words:
  "(\<not> data_ready sio \<and> spi_counts sio = 0xFFFFFF \<longrightarrow>
      (\<exists>m. ads1256_read_adc MAX_SPI_READ_TIME sio b oid = Inl (Shutdown m)))
   \<and> (\<not> data_ready sio \<and> spi_end_time sio - spi_start_time sio < MAX_SPI_READ_TIME
        \<and> spi_counts sio = 0xFFFFFF \<longrightarrow>
      ads1256_read_adc MAX_SPI_READ_TIME sio b oid = Inl (Shutdown ''ads1256: Possible bad read''))
   \<and> ads1256_read_adc MAX_SPI_READ_TIME sio b oid \<noteq> Inl (Shutdown ''ads1256: Invalid Counts'')
   \<and> (\<not> data_ready sio \<and> spi_end_time sio - spi_start_time sio < MAX_SPI_READ_TIME
        \<and> spi_counts sio = 0x800000 \<and> append_ready (sb b) \<longrightarrow>
      (\<exists>b' buf. add_sample (sb b) 0xFF800000 = Inr buf
         \<and> ads1256_read_adc MAX_SPI_READ_TIME sio b oid = Inr b'
         \<and> sb b' = flush_samples buf oid))"
proof -
  have ones: "ads1256_sign_extend 0xFFFFFF = - 1" by (simp add: ads1256_sign_extend_def)
  have mid: "ads1256_sign_extend 0x800000 = 0xFF800000" by (simp add: ads1256_sign_extend_def)
  have 1: "\<not> data_ready sio \<and> spi_counts sio = 0xFFFFFF \<longrightarrow>
      (\<exists>m. ads1256_read_adc MAX_SPI_READ_TIME sio b oid = Inl (Shutdown m))"
    by (simp add: ads1256_read_adc_def ads1256_is_data_ready_def Let_def ones)
  have 2: "\<not> data_ready sio \<and> spi_end_time sio - spi_start_time sio < MAX_SPI_READ_TIME
        \<and> spi_counts sio = 0xFFFFFF \<longrightarrow>
      ads1256_read_adc MAX_SPI_READ_TIME sio b oid = Inl (Shutdown ''ads1256: Possible bad read'')"
    by (auto simp: ads1256_read_adc_def ads1256_is_data_ready_def Let_def ones)
  have 3: "ads1256_read_adc MAX_SPI_READ_TIME sio b oid \<noteq> Inl (Shutdown ''ads1256: Invalid Counts'')"
    using ads1256_counts_below [of sio]
    by (auto simp: ads1256_read_adc_def Let_def add_sample_def split: option.splits)
  have 4: "\<not> data_ready sio \<and> spi_end_time sio - spi_start_time sio < MAX_SPI_READ_TIME
        \<and> spi_counts sio = 0x800000 \<and> append_ready (sb b) \<longrightarrow>
      (\<exists>b' buf. add_sample (sb b) 0xFF800000 = Inr buf
         \<and> ads1256_read_adc MAX_SPI_READ_TIME sio b oid = Inr b'
         \<and> sb b' = flush_samples buf oid)"
  proof
    assume a: "\<not> data_ready sio \<and> spi_end_time sio - spi_start_time sio < MAX_SPI_READ_TIME
        \<and> spi_counts sio = 0x800000 \<and> append_ready (sb b)"
    then obtain buf where buf: "add_sample (sb b) 0xFF800000 = Inr buf"
      using add_sample_ready [of "sb b" "0xFF800000" oid] by blast
    with a show "\<exists>b' buf. add_sample (sb b) 0xFF800000 = Inr buf
         \<and> ads1256_read_adc MAX_SPI_READ_TIME sio b oid = Inr b'
         \<and> sb b' = flush_samples buf oid"
      by (auto simp: ads1256_read_adc_def ads1256_is_data_ready_def Let_def mid
          split: option.splits)
  qed
  from 1 2 3 4 show ?thesis by blast
qed

theorem ads1256_fatal_words_witness:
  "\<not> data_ready spi_all_ones
   \<and> spi_end_time spi_all_ones - spi_start_time spi_all_ones < 600
   \<and> spi_counts spi_all_ones = 0xFFFFFF
   \<and> ads1256_read_adc 600 spi_all_ones example_ads1256 7 =
        Inl (Shutdown ''ads1256: Possible bad read'')
   \<and> \<not> data_ready spi_midpoint
   \<and> spi_end_time spi_midpoint - spi_start_time spi_midpoint < 600
   \<and> spi_counts spi_midpoint = 0x800000 \<and> append_ready (sb example_ads1256)
   \<and> (\<exists>b' buf. add_sample (sb example_ads1256) 0xFF800000 = Inr buf
         \<and> ads1256_read_adc 600 spi_midpoint example_ads1256 7 = Inr b'
         \<and> sb b' = flush_samples buf 7)"
proof -
  have h1: "\<not> data_ready spi_all_ones
      \<and> spi_end_time spi_all_ones - spi_start_time spi_all_ones < 600
      \<and> spi_counts spi_all_ones = 0xFFFFFF"
    by (simp add: spi_all_ones_def spi_counts_def)
  have h2: "\<not> data_ready spi_midpoint
      \<and> spi_end_time spi_midpoint - spi_start_time spi_midpoint < 600
      \<and> spi_counts spi_midpoint = 0x800000 \<and> append_ready (sb example_ads1256)"
    by (simp add: spi_midpoint_def spi_counts_def example_ads1256_def example_ready)
  note r = ads1256_fatal_words [where MAX_SPI_READ_TIME = 600 and b = example_ads1256 and oid = 7]
  from r [where sio = spi_all_ones] h1
  have a: "ads1256_read_adc 600 spi_all_ones example_ads1256 7 =
        Inl (Shutdown ''ads1256: Possible bad read'')"
    by blast
  from r [where sio = spi_midpoint] h2
  have b: "\<exists>b' buf. add_sample (sb example_ads1256) 0xFF800000 = Inr buf
         \<and> ads1256_read_adc 600 spi_midpoint example_ads1256 7 = Inr b'
         \<and> sb b' = flush_samples buf 7"
    by blast
  from a b h1 h2 show ?thesis by blast
qed

text \<open>
  The stronger statement, that the raw midpoint is fatal as well, does not hold: the
  three bytes \<open>80 00 00\<close>, read in time, are stored as the sample \<open>0xFF800000\<close>
  and the timer is re-armed.
\<close>

theorem ads1256_midpoint_is_a_sample:
  "spi_counts spi_midpoint = 0x800000
   \<and> \<not> isl (run (ads1256_step 600 7) example_ads1256 ads1256_midpoint_run)
   \<and> data_count (sb (projr (run (ads1256_step 600 7) example_ads1256 ads1256_midpoint_run))) = 4
   \<and> take 4 (data (sb (projr (run (ads1256_step 600 7) example_ads1256 ads1256_midpoint_run))))
       = [0, 0, 0x80, 0xFF]
   \<and> scheduled (timer (projr (run (ads1256_step 600 7) example_ads1256 ads1256_midpoint_run)))"
  by code_simp

end
